theory Spec2Isabelle
  imports Complex_Main "HOL-Library.AList"
begin

section \<open>Shared labels\<close>

text \<open>
  The string unions of the TypeScript sources.  \<open>'male' | 'female'\<close> and
  \<open>'kid' | 'young' | 'adult'\<close> are the labels of a detection; an ad may also target
  \<open>'all'\<close>.  JavaScript numbers are modelled as reals where the source does arithmetic on
  scores and probabilities (no NaN, no rounding), and as integers where it counts.
\<close>

datatype gender = Male | Female

datatype ageGroup = Kid | Young | Adult

datatype adGender = AdMale | AdFemale | AdAllGenders

datatype adAgeGroup = AdKid | AdYoung | AdAdult | AdAllAges

section \<open>Bias correction (genderHeuristics.ts)\<close>

record genderEstimate =
  est_gender :: gender
  est_confidence :: real

text \<open>
  \<open>applyFemaleBoost(rawGender, rawConfidence, femaleBoostFactor, hairScore)\<close>.
  The default \<open>hairScore = 0.5\<close> is supplied by the caller in this model.
\<close>

definition applyFemaleBoost :: "gender \<Rightarrow> real \<Rightarrow> real \<Rightarrow> real \<Rightarrow> genderEstimate" where
  "applyFemaleBoost rawGender rawConfidence femaleBoostFactor hairScore =
     (if rawConfidence < 0.45 \<or> rawConfidence > 0.70
      then \<lparr>est_gender = rawGender, est_confidence = rawConfidence\<rparr>
      else
        let femaleProb0 = (if rawGender = Female then rawConfidence else 1 - rawConfidence);
            boost = femaleBoostFactor * (0.3 + hairScore * 0.7);
            femaleProb = min 0.95 (femaleProb0 + boost)
        in if femaleProb > 0.5
           then \<lparr>est_gender = Female, est_confidence = femaleProb\<rparr>
           else \<lparr>est_gender = Male, est_confidence = 1 - femaleProb\<rparr>)"

section \<open>Vote stabilisation (types/detection.ts)\<close>

record genderVotes =
  gv_male :: real
  gv_female :: real

record ageVotes =
  av_kid :: real
  av_young :: real
  av_adult :: real

record stableOpts =
  minTotal :: "real option"
  minMargin :: "real option"

text \<open>The default argument \<open>opts = {}\<close>: both fields undefined.\<close>

definition noOpts :: stableOpts where
  "noOpts = \<lparr>minTotal = None, minMargin = None\<rparr>"

text \<open>\<open>a ?? b\<close> on an optional number.\<close>

definition orDefault :: "'a option \<Rightarrow> 'a \<Rightarrow> 'a" where
  "orDefault v d = (case v of None \<Rightarrow> d | Some w \<Rightarrow> w)"

definition getStableGender :: "genderVotes \<Rightarrow> gender \<Rightarrow> stableOpts \<Rightarrow> gender" where
  "getStableGender votes previous opts =
     (let total = gv_male votes + gv_female votes;
          minTotal' = orDefault (minTotal opts) 0.9;
          minMargin' = orDefault (minMargin opts) 0.25
      in if total < minTotal' then previous
         else let diff = \<bar>gv_female votes - gv_male votes\<bar>
              in if diff < minMargin' then previous
                 else if gv_female votes > gv_male votes then Female else Male)"

text \<open>
  \<open>getStableAgeGroup\<close> sorts the three entries by votes, descending, with the stable
  sort of the engine: among equal votes the order kid, young, adult is kept.
\<close>

definition ageEntries :: "ageVotes \<Rightarrow> (ageGroup \<times> real) list" where
  "ageEntries votes =
     sort_key (\<lambda>e. - snd e) [(Kid, av_kid votes), (Young, av_young votes), (Adult, av_adult votes)]"

definition getStableAgeGroup :: "ageVotes \<Rightarrow> ageGroup \<Rightarrow> stableOpts \<Rightarrow> ageGroup" where
  "getStableAgeGroup votes previous opts =
     (let total = av_kid votes + av_young votes + av_adult votes;
          minTotal' = orDefault (minTotal opts) 0.9;
          minMargin' = orDefault (minMargin opts) 0.25
      in if total < minTotal' then previous
         else let entries = ageEntries votes
              in if snd (entries ! 0) - snd (entries ! 1) < minMargin' then previous
                 else fst (entries ! 0))"

section \<open>Ad queue scorer (useAdQueue)\<close>

record adMetadata =
  ad_id :: string
  ad_title :: string
  ad_gender :: adGender
  ad_ageGroup :: adAgeGroup
  ad_duration :: real
  ad_captureStart :: real
  ad_captureEnd :: real

record demographicCounts =
  dc_male :: int
  dc_female :: int
  dc_kid :: int
  dc_young :: int
  dc_adult :: int

text \<open>The entries pushed on \<open>reasons\<close>; the message texts are not modelled.\<close>

datatype reason =
    PerfectMatch adGender adAgeGroup
  | MatchesBoth
  | MatchesGender adGender
  | MatchesAge adAgeGroup
  | NoMatch
  | JustPlayed

record adScore =
  as_ad :: adMetadata
  as_score :: int
  as_reasons :: "reason list"

text \<open>The local constants \<open>dominantGender\<close> and \<open>dominantAge\<close> of \<open>scoreAd\<close>.\<close>

definition dominantGender :: "demographicCounts \<Rightarrow> adGender" where
  "dominantGender demographics =
     (if dc_male demographics \<ge> dc_female demographics then AdMale else AdFemale)"

definition dominantAge :: "demographicCounts \<Rightarrow> adAgeGroup" where
  "dominantAge demographics =
     (if dc_kid demographics \<ge> dc_young demographics \<and> dc_kid demographics \<ge> dc_adult demographics
      then AdKid
      else if dc_adult demographics > dc_young demographics \<and> dc_adult demographics > dc_kid demographics
      then AdAdult
      else AdYoung)"

text \<open>
  \<open>scoreAd(ad, demographics)\<close>; the first argument is \<open>lastPlayedIdRef.current\<close>, the one
  piece of state the function reads (\<open>None\<close> is \<open>null\<close>).
\<close>

definition scoreAd :: "string option \<Rightarrow> adMetadata \<Rightarrow> demographicCounts \<Rightarrow> adScore" where
  "scoreAd lastPlayedId ad demographics =
     (let dominantGender' = dominantGender demographics;
          dominantAge' = dominantAge demographics;
          genderMatches = (ad_gender ad = dominantGender' \<or> ad_gender ad = AdAllGenders);
          ageMatches = (ad_ageGroup ad = dominantAge' \<or> ad_ageGroup ad = AdAllAges);
          (score1, reasons1) =
            (if ad_gender ad = dominantGender' \<and> ad_ageGroup ad = dominantAge'
             then (0 + 10, [PerfectMatch dominantGender' dominantAge'])
             else if genderMatches \<and> ageMatches then (0 + 5, [MatchesBoth])
             else if ad_gender ad = dominantGender' then (0 + 3, [MatchesGender dominantGender'])
             else if ad_ageGroup ad = dominantAge' then (0 + 3, [MatchesAge dominantAge'])
             else (0 - 5, [NoMatch]));
          (score2, reasons2) =
            (if Some (ad_id ad) = lastPlayedId
             then (score1 - 3, reasons1 @ [JustPlayed])
             else (score1, reasons1))
      in \<lparr>as_ad = ad, as_score = score2, as_reasons = reasons2\<rparr>)"

section \<open>Detection merger (useFaceDetection)\<close>

record faceBoundingBox =
  box_x :: real
  box_y :: real
  box_width :: real
  box_height :: real

text \<open>
  A raw candidate as the detectors return it.  With age and gender the detector wraps
  score and box in \<open>detection\<close>; the accessors also accept a bare \<open>{score, box}\<close>.
  \<open>None\<close> is an absent (undefined) property.
\<close>

record faceDetection =
  fd_score :: "real option"
  fd_box :: "faceBoundingBox option"

record candidate =
  c_detection :: "faceDetection option"
  c_score :: "real option"
  c_box :: "faceBoundingBox option"
  c_age :: real
  c_gender :: gender
  c_genderProbability :: real

text \<open>\<open>d.detection?.score ?? d.score ?? 0\<close> and \<open>d.detection?.box ?? d.box\<close>.\<close>

definition getScore :: "candidate \<Rightarrow> real" where
  "getScore d =
     (case (case c_detection d of None \<Rightarrow> None | Some det \<Rightarrow> fd_score det) of
        Some s \<Rightarrow> s
      | None \<Rightarrow> orDefault (c_score d) 0)"

definition getBox :: "candidate \<Rightarrow> faceBoundingBox option" where
  "getBox d =
     (case (case c_detection d of None \<Rightarrow> None | Some det \<Rightarrow> fd_box det) of
        Some b \<Rightarrow> Some b
      | None \<Rightarrow> c_box d)"

text \<open>
  The test in the inner loop of \<open>mergeDetections\<close>: \<open>boxA\<close> is the kept box, \<open>boxB\<close> the
  candidate's.
\<close>

definition overlaps :: "real \<Rightarrow> real \<Rightarrow> faceBoundingBox \<Rightarrow> faceBoundingBox \<Rightarrow> bool" where
  "overlaps iouThreshold containmentThreshold boxA boxB =
     (let x1 = max (box_x boxA) (box_x boxB);
          y1 = max (box_y boxA) (box_y boxB);
          x2 = min (box_x boxA + box_width boxA) (box_x boxB + box_width boxB);
          y2 = min (box_y boxA + box_height boxA) (box_y boxB + box_height boxB);
          intersection = max 0 (x2 - x1) * max 0 (y2 - y1);
          areaA = box_width boxA * box_height boxA;
          areaB = box_width boxB * box_height boxB;
          union = areaA + areaB - intersection;
          iou = (if union > 0 then intersection / union else 0);
          containment = (if areaB > 0 then intersection / areaB else 0)
      in iou \<ge> iouThreshold \<or> containment \<ge> containmentThreshold)"

text \<open>The inner loop \<open>for (const kept of merged)\<close>, with its \<open>continue\<close> and \<open>break\<close>.\<close>

fun isDuplicate :: "real \<Rightarrow> real \<Rightarrow> candidate list \<Rightarrow> faceBoundingBox \<Rightarrow> bool" where
  "isDuplicate iouThreshold containmentThreshold [] boxB = False"
| "isDuplicate iouThreshold containmentThreshold (kept # rest) boxB =
     (case getBox kept of
        None \<Rightarrow> isDuplicate iouThreshold containmentThreshold rest boxB
      | Some boxA \<Rightarrow>
          if overlaps iouThreshold containmentThreshold boxA boxB then True
          else isDuplicate iouThreshold containmentThreshold rest boxB)"

text \<open>The outer loop \<open>for (const cand of sorted)\<close>; \<open>merged\<close> is the accumulator.\<close>

fun mergeLoop :: "real \<Rightarrow> real \<Rightarrow> candidate list \<Rightarrow> candidate list \<Rightarrow> candidate list" where
  "mergeLoop iouThreshold containmentThreshold merged [] = merged"
| "mergeLoop iouThreshold containmentThreshold merged (cand # rest) =
     (case getBox cand of
        None \<Rightarrow> mergeLoop iouThreshold containmentThreshold merged rest
      | Some boxB \<Rightarrow>
          if isDuplicate iouThreshold containmentThreshold merged boxB
          then mergeLoop iouThreshold containmentThreshold merged rest
          else mergeLoop iouThreshold containmentThreshold (merged @ [cand]) rest)"

text \<open>
  \<open>mergeDetections(detections, _videoWidth, _videoHeight, iouThreshold, containmentThreshold)\<close>.
  \<open>Array.prototype.sort\<close> is stable, and so is \<open>sort_key\<close>; sorting by the negated score
  is the comparator \<open>getScore(b) - getScore(a)\<close>.  The defaults \<open>0.55\<close> and \<open>0.85\<close> are
  passed by the callers in this model.
\<close>

definition mergeDetections ::
  "candidate list \<Rightarrow> real \<Rightarrow> real \<Rightarrow> real \<Rightarrow> real \<Rightarrow> candidate list" where
  "mergeDetections detections videoWidth videoHeight iouThreshold containmentThreshold =
     (if length detections = 0 then []
      else let sorted_detections = sort_key (\<lambda>d. - getScore d) detections
           in mergeLoop iouThreshold containmentThreshold [] sorted_detections)"


section \<open>Multi-pass orchestration (useFaceDetection, detectFaces)\<close>

datatype detectorTier = Tiny | Ssd | Dual

record preprocessingOptions =
  pp_gamma :: real
  pp_contrast :: real
  pp_sharpen :: real
  pp_denoise :: bool

record roiConfig =
  roi_enabled :: bool
  roi_x :: real
  roi_y :: real
  roi_width :: real
  roi_height :: real

text \<open>
  \<open>CCTVDetectionConfig\<close>, with the fields that the modelled code reads.  An optional field
  is an \<open>option\<close>.
\<close>

record cctvDetectionConfig =
  detector :: detectorTier
  sensitivity :: real
  preprocessing :: preprocessingOptions
  upscale :: real
  roi :: roiConfig
  minFaceScore :: real
  hardMinFaceScore :: "real option"
  minFaceSizePx :: real
  minFaceSizePercent :: real
  aspectRatioMin :: real
  aspectRatioMax :: real
  minConsecutiveFrames :: int
  holdFrames :: int
  maxVelocityPx :: real
  debugMode :: bool
  enableEnhancedRescue :: "bool option"

definition DEFAULT_CCTV_CONFIG :: cctvDetectionConfig where
  "DEFAULT_CCTV_CONFIG =
     \<lparr>detector = Dual, sensitivity = 0.15,
      preprocessing = \<lparr>pp_gamma = 1.4, pp_contrast = 1.5, pp_sharpen = 0.4, pp_denoise = True\<rparr>,
      upscale = 2.0,
      roi = \<lparr>roi_enabled = False, roi_x = 0, roi_y = 0, roi_width = 1, roi_height = 1\<rparr>,
      minFaceScore = 0.1, hardMinFaceScore = None, minFaceSizePx = 12,
      minFaceSizePercent = 0.05, aspectRatioMin = 0.25, aspectRatioMax = 4.0,
      minConsecutiveFrames = 2, holdFrames = 8, maxVelocityPx = 250, debugMode = False,
      enableEnhancedRescue = None\<rparr>"

definition DEFAULT_WEBCAM_CONFIG :: cctvDetectionConfig where
  "DEFAULT_WEBCAM_CONFIG =
     \<lparr>detector = Tiny, sensitivity = 0.2,
      preprocessing = \<lparr>pp_gamma = 1.0, pp_contrast = 1.0, pp_sharpen = 0, pp_denoise = False\<rparr>,
      upscale = 1,
      roi = \<lparr>roi_enabled = False, roi_x = 0, roi_y = 0, roi_width = 1, roi_height = 1\<rparr>,
      minFaceScore = 0.15, hardMinFaceScore = None, minFaceSizePx = 12,
      minFaceSizePercent = 0.1, aspectRatioMin = 0.25, aspectRatioMax = 4.0,
      minConsecutiveFrames = 2, holdFrames = 3, maxVelocityPx = 250, debugMode = False,
      enableEnhancedRescue = None\<rparr>"

text \<open>
  The Model Gateway: the two detectors of face-api.js and the canvas factory, on an
  abstract type of images.  A detector call either throws (\<open>Inl\<close>) or returns candidates.
  \<open>createProcessedCanvas\<close> returns \<open>null\<close> (\<open>None\<close>) when no drawing context is available.
\<close>

datatype detectorError = DetectorError

record 'img gateway =
  tinyFaceDetector :: "'img \<Rightarrow> real \<Rightarrow> real \<Rightarrow> detectorError + candidate list"
  ssdMobilenet :: "'img \<Rightarrow> real \<Rightarrow> detectorError + candidate list"
  createProcessedCanvas ::
    "'img \<Rightarrow> preprocessingOptions \<Rightarrow> real \<Rightarrow> roiConfig option \<Rightarrow> 'img option"

text \<open>What \<open>detectFaces\<close> reads besides the configuration.\<close>

record 'img frameContext =
  videoElement :: 'img
  videoWidth :: real
  videoHeight :: real
  isCCTV :: bool
  ssdLoaded :: bool

definition runTinyDetection ::
  "'img gateway \<Rightarrow> 'img \<Rightarrow> real \<Rightarrow> real \<Rightarrow> detectorError + candidate list" where
  "runTinyDetection gw input inputSize scoreThreshold =
     tinyFaceDetector gw input inputSize scoreThreshold"

definition runSsdDetection ::
  "bool \<Rightarrow> 'img gateway \<Rightarrow> 'img \<Rightarrow> real \<Rightarrow> detectorError + candidate list" where
  "runSsdDetection ssdLoaded' gw input minConfidence =
     (if \<not> ssdLoaded' then Inr [] else ssdMobilenet gw input minConfidence)"

text \<open>\<open>try { return await call } catch { return [] }\<close>.\<close>

definition orEmpty :: "detectorError + candidate list \<Rightarrow> candidate list" where
  "orEmpty r = (case r of Inl e \<Rightarrow> [] | Inr detections \<Rightarrow> detections)"

text \<open>
  \<open>try { const r = await call; if (r.length > 0) list.push(r) } catch { }\<close>, the optional
  SSD run after the per-scale runs.
\<close>

definition pushIfAny ::
  "candidate list list \<Rightarrow> detectorError + candidate list \<Rightarrow> candidate list list" where
  "pushIfAny perScale r =
     (case r of
        Inl e \<Rightarrow> perScale
      | Inr ssdResults \<Rightarrow> if length ssdResults > 0 then perScale @ [ssdResults] else perScale)"

definition detectionThreshold :: "cctvDetectionConfig \<Rightarrow> real" where
  "detectionThreshold config = max (sensitivity config - 0.05) 0.15"

definition pass1Threshold :: "cctvDetectionConfig \<Rightarrow> real" where
  "pass1Threshold config = max (detectionThreshold config - 0.05) 0.1"

definition rescueThreshold :: "cctvDetectionConfig \<Rightarrow> real" where
  "rescueThreshold config = max (sensitivity config - 0.10) 0.12"

definition pass1Scales :: "bool \<Rightarrow> real list" where
  "pass1Scales isCCTV' = (if isCCTV' then [320, 416, 512, 608] else [416, 512])"

definition pass2Scales :: "real list" where
  "pass2Scales = [320, 416, 512, 608]"

definition allPass1Detections ::
  "'img frameContext \<Rightarrow> cctvDetectionConfig \<Rightarrow> 'img gateway \<Rightarrow> candidate list list" where
  "allPass1Detections ctx config gw =
     (let isDualMode = (detector config = Dual \<and> ssdLoaded ctx);
          useSsdOnly = (detector config = Ssd \<and> ssdLoaded ctx);
          perScale =
            map (\<lambda>inputSize.
                   orEmpty
                     (if useSsdOnly
                      then runSsdDetection (ssdLoaded ctx) gw (videoElement ctx) (pass1Threshold config)
                      else runTinyDetection gw (videoElement ctx) inputSize (pass1Threshold config)))
                (pass1Scales (isCCTV ctx))
      in if ssdLoaded ctx \<and> (isDualMode \<or> detector config \<noteq> Tiny)
         then pushIfAny perScale
                (runSsdDetection (ssdLoaded ctx) gw (videoElement ctx) (pass1Threshold config))
         else perScale)"

definition mergedPass1 ::
  "'img frameContext \<Rightarrow> cctvDetectionConfig \<Rightarrow> 'img gateway \<Rightarrow> candidate list" where
  "mergedPass1 ctx config gw =
     mergeDetections (concat (allPass1Detections ctx config gw))
       (videoWidth ctx) (videoHeight ctx) 0.55 0.85"

definition shouldRunPass2 :: "bool \<Rightarrow> cctvDetectionConfig \<Rightarrow> candidate list \<Rightarrow> bool" where
  "shouldRunPass2 isCCTV' config detections =
     (isCCTV' \<and> detector config \<noteq> Tiny \<and>
      (length detections < 3 \<or> orDefault (enableEnhancedRescue config) False))"

definition aggressivePreprocessing :: "cctvDetectionConfig \<Rightarrow> preprocessingOptions" where
  "aggressivePreprocessing config =
     \<lparr>pp_gamma = max (pp_gamma (preprocessing config)) 1.5,
      pp_contrast = max (pp_contrast (preprocessing config)) 1.6,
      pp_sharpen = max (pp_sharpen (preprocessing config)) 0.5,
      pp_denoise = True\<rparr>"

definition pass2Detections ::
  "'img frameContext \<Rightarrow> cctvDetectionConfig \<Rightarrow> 'img gateway \<Rightarrow> 'img \<Rightarrow> candidate list list" where
  "pass2Detections ctx config gw processedCanvas =
     (let perScale =
            map (\<lambda>inputSize.
                   orEmpty (runTinyDetection gw processedCanvas inputSize (rescueThreshold config)))
                pass2Scales
      in if ssdLoaded ctx
         then pushIfAny perScale
                (runSsdDetection (ssdLoaded ctx) gw processedCanvas (rescueThreshold config))
         else perScale)"

text \<open>Pass 2 as a whole: from the detections of Pass 1 to those after Pass 2.\<close>

definition pass2 ::
  "'img frameContext \<Rightarrow> cctvDetectionConfig \<Rightarrow> 'img gateway \<Rightarrow> candidate list \<Rightarrow> candidate list" where
  "pass2 ctx config gw detections =
     (if shouldRunPass2 (isCCTV ctx) config detections
      then
        (case createProcessedCanvas gw (videoElement ctx) (aggressivePreprocessing config)
                (upscale config)
                (if roi_enabled (roi config) then Some (roi config) else None) of
           None \<Rightarrow> detections
         | Some processedCanvas \<Rightarrow>
             let mergedPass2 =
                   mergeDetections (concat (pass2Detections ctx config gw processedCanvas))
                     (videoWidth ctx) (videoHeight ctx) 0.55 0.85
             in if length mergedPass2 > 0
                then mergeDetections (detections @ mergedPass2)
                       (videoWidth ctx) (videoHeight ctx) 0.55 0.85
                else detections)
      else detections)"

definition shouldRunPass3 :: "bool \<Rightarrow> cctvDetectionConfig \<Rightarrow> candidate list \<Rightarrow> bool" where
  "shouldRunPass3 isCCTV' config detections =
     (isCCTV' \<and> detector config \<noteq> Tiny \<and> length detections < 5 \<and>
      orDefault (enableEnhancedRescue config) False)"

text \<open>The filter of Pass 3 (\<open>strongCandidates\<close>); a zero width or height is falsy.\<close>

definition strongCandidate :: "cctvDetectionConfig \<Rightarrow> real \<Rightarrow> real \<Rightarrow> candidate \<Rightarrow> bool" where
  "strongCandidate config videoWidth' videoHeight' d =
     (let hardFloor = orDefault (hardMinFaceScore config) 0.15;
          pass3MinCandidateScore = max (max (minFaceScore config) hardFloor) 0.20;
          score = orDefault (case c_detection d of None \<Rightarrow> c_score d | Some det \<Rightarrow> fd_score det) 0;
          box = (case c_detection d of None \<Rightarrow> c_box d | Some det \<Rightarrow> fd_box det)
      in if score < pass3MinCandidateScore then False
         else case box of
           None \<Rightarrow> False
         | Some b \<Rightarrow>
             if box_width b = 0 \<or> box_height b = 0 then False
             else let actualWidth = box_width b / 2.5;
                      actualHeight = box_height b / 2.5
                  in if actualWidth < minFaceSizePx config \<or> actualHeight < minFaceSizePx config
                     then False
                     else let frameArea = videoWidth' * videoHeight';
                              faceArea = actualWidth * actualHeight
                          in if faceArea > frameArea * 0.30 then False
                             else let aspectRatio = actualWidth / actualHeight
                                  in \<not> (aspectRatio < aspectRatioMin config \<or>
                                        aspectRatio > aspectRatioMax config))"

text \<open>
  Pass 3: one \<open>try\<close> around the whole pass, and \<open>Promise.all\<close> over the two calls, so a
  failure of either call abandons the pass.
\<close>

definition pass3 ::
  "'img frameContext \<Rightarrow> cctvDetectionConfig \<Rightarrow> 'img gateway \<Rightarrow> candidate list \<Rightarrow> candidate list" where
  "pass3 ctx config gw detections =
     (if shouldRunPass3 (isCCTV ctx) config detections
      then
        (case createProcessedCanvas gw (videoElement ctx)
                \<lparr>pp_gamma = 1.8, pp_contrast = 2.0, pp_sharpen = 0.6, pp_denoise = True\<rparr>
                2.5 None of
           None \<Rightarrow> detections
         | Some enhancedCanvas \<Rightarrow>
             (case (runTinyDetection gw enhancedCanvas 608 0.08,
                    if ssdLoaded ctx then runSsdDetection (ssdLoaded ctx) gw enhancedCanvas 0.08
                    else Inr []) of
                (Inr tinyResults, Inr ssdResults) \<Rightarrow>
                  let strongCandidates =
                        filter (strongCandidate config (videoWidth ctx) (videoHeight ctx))
                          (tinyResults @ ssdResults);
                      mergedPass3 =
                        mergeDetections strongCandidates (videoWidth ctx) (videoHeight ctx) 0.6 0.9
                  in if length mergedPass3 > 0
                     then mergeDetections (detections @ mergedPass3)
                            (videoWidth ctx) (videoHeight ctx) 0.6 0.9
                     else detections
              | _ \<Rightarrow> detections))
      else detections)"

text \<open>
  The candidate set that \<open>detectFaces\<close> hands to \<open>processDetections\<close>.  The guards at the
  top of \<open>detectFaces\<close> (a cycle in flight, models not loaded), its bookkeeping
  (\<open>passUsed\<close>, \<open>scaleBack\<close>, the debug counters) and the whole-cycle timeout are outside
  this function.
\<close>

definition collectDetections ::
  "'img frameContext \<Rightarrow> cctvDetectionConfig \<Rightarrow> 'img gateway \<Rightarrow> candidate list" where
  "collectDetections ctx config gw =
     pass3 ctx config gw (pass2 ctx config gw (mergedPass1 ctx config gw))"

text \<open>
  The gateway in which every call that throws returns no candidates instead, and every
  other call returns what it returned.  It states what "a failed call contributes zero
  candidates" means.
\<close>

definition failuresAsEmpty :: "'img gateway \<Rightarrow> 'img gateway" where
  "failuresAsEmpty gw =
     gw\<lparr>tinyFaceDetector :=
           (\<lambda>input inputSize threshold.
              case tinyFaceDetector gw input inputSize threshold of
                Inl e \<Rightarrow> Inr [] | Inr r \<Rightarrow> Inr r),
        ssdMobilenet :=
           (\<lambda>input threshold.
              case ssdMobilenet gw input threshold of Inl e \<Rightarrow> Inr [] | Inr r \<Rightarrow> Inr r)\<rparr>"

section \<open>Temporal tracker and capture session (SmartAdsSystem)\<close>

text \<open>
  A result of \<open>detectFaces\<close>.  \<open>processDetections\<close> builds every result with a
  \<open>boundingBox\<close>, so the optional field of the interface is always present here, and the
  guards of \<open>calculateIoU\<close> and \<open>calculateCenterDistance\<close> for a missing box are not
  reachable.
\<close>

record detectionResult =
  dr_gender :: gender
  dr_ageGroup :: ageGroup
  dr_confidence :: real
  dr_faceScore :: real
  dr_boundingBox :: faceBoundingBox
  dr_trackingId :: "string option"

record velocity =
  vx :: real
  vy :: real

datatype detectorUsed = UsedTiny | UsedSsd

record trackedFace =
  tf_id :: string
  tf_boundingBox :: faceBoundingBox
  tf_velocity :: velocity
  tf_confidence :: real
  tf_faceScore :: real
  tf_gender :: gender
  tf_ageGroup :: ageGroup
  tf_consecutiveHits :: int
  tf_missedFrames :: int
  tf_firstSeenAt :: int
  tf_lastSeenAt :: int
  tf_detectorUsed :: detectorUsed
  tf_genderVotes :: genderVotes
  tf_ageVotes :: ageVotes
  tf_stableGender :: gender
  tf_stableAgeGroup :: ageGroup
  tf_isUserCorrected :: "bool option"

record viewerAggregate =
  va_trackingId :: string
  va_genderVotes :: genderVotes
  va_ageVotes :: ageVotes
  va_seenFrames :: int
  va_bestFaceScore :: real
  va_bestConfidence :: real
  va_finalGender :: gender
  va_finalAgeGroup :: ageGroup

text \<open>
  \<open>captureSessionRef.current\<close>.  A JavaScript \<open>Map\<close> keeps insertion order: it is an
  association list whose keys are distinct, \<open>set\<close> is \<open>AList.update\<close> (in place for a
  known key, at the end for a new one) and \<open>get\<close> is \<open>map_of\<close>.
\<close>

record captureSession =
  cs_startedAt :: int
  cs_frameCount :: int
  cs_viewers :: "(string \<times> viewerAggregate) list"

record captureSessionSummary =
  sum_startedAt :: int
  sum_endedAt :: "int option"
  sum_totalFrames :: int
  sum_uniqueViewers :: int
  sum_demographics :: demographicCounts
  sum_viewers :: "viewerAggregate list"

definition MIN_VOTE_CONFIDENCE :: real where
  "MIN_VOTE_CONFIDENCE = 0.65"

definition MIN_FRAMES_FOR_SESSION :: int where
  "MIN_FRAMES_FOR_SESSION = 2"

definition calculateIoU :: "faceBoundingBox \<Rightarrow> faceBoundingBox \<Rightarrow> real" where
  "calculateIoU box1 box2 =
     (let x1 = max (box_x box1) (box_x box2);
          y1 = max (box_y box1) (box_y box2);
          x2 = min (box_x box1 + box_width box1) (box_x box2 + box_width box2);
          y2 = min (box_y box1 + box_height box1) (box_y box2 + box_height box2);
          intersection = max 0 (x2 - x1) * max 0 (y2 - y1);
          area1 = box_width box1 * box_height box1;
          area2 = box_width box2 * box_height box2;
          union = area1 + area2 - intersection
      in if union > 0 then intersection / union else 0)"

definition calculateCenterDistance :: "faceBoundingBox \<Rightarrow> faceBoundingBox \<Rightarrow> real" where
  "calculateCenterDistance box1 box2 =
     (let cx1 = box_x box1 + box_width box1 / 2;
          cy1 = box_y box1 + box_height box1 / 2;
          cx2 = box_x box2 + box_width box2 / 2;
          cy2 = box_y box2 + box_height box2 / 2
      in sqrt ((cx2 - cx1)\<^sup>2 + (cy2 - cy1)\<^sup>2))"

text \<open>\<open>votes[label] += weight\<close>.\<close>

definition addGenderVote :: "gender \<Rightarrow> real \<Rightarrow> genderVotes \<Rightarrow> genderVotes" where
  "addGenderVote g w votes =
     (case g of
        Male \<Rightarrow> votes\<lparr>gv_male := gv_male votes + w\<rparr>
      | Female \<Rightarrow> votes\<lparr>gv_female := gv_female votes + w\<rparr>)"

definition addAgeVote :: "ageGroup \<Rightarrow> real \<Rightarrow> ageVotes \<Rightarrow> ageVotes" where
  "addAgeVote a w votes =
     (case a of
        Kid \<Rightarrow> votes\<lparr>av_kid := av_kid votes + w\<rparr>
      | Young \<Rightarrow> votes\<lparr>av_young := av_young votes + w\<rparr>
      | Adult \<Rightarrow> votes\<lparr>av_adult := av_adult votes + w\<rparr>)"

text \<open>\<open>votes[label] = weight\<close>.\<close>

definition setAgeVote :: "ageGroup \<Rightarrow> real \<Rightarrow> ageVotes \<Rightarrow> ageVotes" where
  "setAgeVote a w votes =
     (case a of
        Kid \<Rightarrow> votes\<lparr>av_kid := w\<rparr>
      | Young \<Rightarrow> votes\<lparr>av_young := w\<rparr>
      | Adult \<Rightarrow> votes\<lparr>av_adult := w\<rparr>)"

text \<open>\<open>detection.trackingId?.startsWith('ssd') ? 'ssd' : 'tiny'\<close>.\<close>

definition detectorOf :: "detectionResult \<Rightarrow> detectorUsed" where
  "detectorOf detection =
     (case dr_trackingId detection of
        None \<Rightarrow> UsedTiny
      | Some s \<Rightarrow> if take 3 s = ''ssd'' then UsedSsd else UsedTiny)"

subsection \<open>Matching a track to a detection\<close>

text \<open>
  One round of the inner loop \<open>for (let i = 0; i < results.length; i++)\<close>; the pair is
  \<open>(bestMatch, bestScore)\<close>.
\<close>

definition matchCandidate ::
  "cctvDetectionConfig \<Rightarrow> trackedFace \<Rightarrow> detectionResult list \<Rightarrow> nat set \<Rightarrow>
   nat \<Rightarrow> nat option \<times> real \<Rightarrow> nat option \<times> real" where
  "matchCandidate config trackedFace results usedDetections i best =
     (if i \<in> usedDetections then best
      else
        let detection = results ! i;
            iou = calculateIoU (dr_boundingBox detection) (tf_boundingBox trackedFace);
            distance = calculateCenterDistance (dr_boundingBox detection) (tf_boundingBox trackedFace);
            predictedX = box_x (tf_boundingBox trackedFace) + vx (tf_velocity trackedFace);
            predictedY = box_y (tf_boundingBox trackedFace) + vy (tf_velocity trackedFace);
            predictedBox = (tf_boundingBox trackedFace)\<lparr>box_x := predictedX, box_y := predictedY\<rparr>;
            predictedDistance = calculateCenterDistance (dr_boundingBox detection) predictedBox;
            effectiveDistance = min distance predictedDistance
        in if effectiveDistance > maxVelocityPx config then best
           else
             let score = iou * 0.6 + max 0 (1 - effectiveDistance / 200) * 0.4
             in if score > snd best \<and> (iou > 0.2 \<or> effectiveDistance < 80)
                then (Some i, score)
                else best)"

definition findBestMatch ::
  "cctvDetectionConfig \<Rightarrow> trackedFace \<Rightarrow> detectionResult list \<Rightarrow> nat set \<Rightarrow> nat option" where
  "findBestMatch config trackedFace results usedDetections =
     fst (fold (matchCandidate config trackedFace results usedDetections)
            [0..<length results] (None, 0))"

subsection \<open>Updating a matched track\<close>

text \<open>The object written by \<open>tracked.set(id, {...trackedFace, ...})\<close> for a matched track.\<close>

definition updateMatched :: "real \<Rightarrow> int \<Rightarrow> trackedFace \<Rightarrow> detectionResult \<Rightarrow> trackedFace" where
  "updateMatched femaleBoostFactor currentTime trackedFace detection =
     (let alpha = 0.7;
          newVx = box_x (dr_boundingBox detection) - box_x (tf_boundingBox trackedFace);
          newVy = box_y (dr_boundingBox detection) - box_y (tf_boundingBox trackedFace);
          isUserCorrected = (tf_isUserCorrected trackedFace = Some True);
          (newGenderVotes, newAgeVotes) =
            (if \<not> isUserCorrected \<and> dr_confidence detection \<ge> MIN_VOTE_CONFIDENCE
             then
               let voteWeight = dr_confidence detection * min (dr_faceScore detection) 1;
                   confidenceScale = max 0 (1 - (dr_confidence detection - 0.5) * 2);
                   femaleBoost = femaleBoostFactor * confidenceScale
               in ((if dr_gender detection = Male
                    then (tf_genderVotes trackedFace)
                           \<lparr>gv_male := gv_male (tf_genderVotes trackedFace) + voteWeight\<rparr>
                    else (tf_genderVotes trackedFace)
                           \<lparr>gv_female := gv_female (tf_genderVotes trackedFace)
                                          + voteWeight * (1 + femaleBoost)\<rparr>),
                   addAgeVote (dr_ageGroup detection) voteWeight (tf_ageVotes trackedFace))
             else (tf_genderVotes trackedFace, tf_ageVotes trackedFace));
          stableGender =
            (if isUserCorrected then tf_stableGender trackedFace
             else getStableGender newGenderVotes (tf_stableGender trackedFace) noOpts);
          stableAgeGroup =
            (if isUserCorrected then tf_stableAgeGroup trackedFace
             else getStableAgeGroup newAgeVotes (tf_stableAgeGroup trackedFace) noOpts)
      in trackedFace
           \<lparr>tf_boundingBox :=
              \<lparr>box_x = box_x (tf_boundingBox trackedFace) * (1 - alpha)
                        + box_x (dr_boundingBox detection) * alpha,
               box_y = box_y (tf_boundingBox trackedFace) * (1 - alpha)
                        + box_y (dr_boundingBox detection) * alpha,
               box_width = box_width (tf_boundingBox trackedFace) * (1 - alpha)
                        + box_width (dr_boundingBox detection) * alpha,
               box_height = box_height (tf_boundingBox trackedFace) * (1 - alpha)
                        + box_height (dr_boundingBox detection) * alpha\<rparr>,
            tf_velocity :=
              \<lparr>vx = vx (tf_velocity trackedFace) * 0.5 + newVx * 0.5,
               vy = vy (tf_velocity trackedFace) * 0.5 + newVy * 0.5\<rparr>,
            tf_confidence := (if isUserCorrected then 1.0 else dr_confidence detection),
            tf_faceScore := dr_faceScore detection,
            tf_gender := (if isUserCorrected then tf_gender trackedFace else dr_gender detection),
            tf_ageGroup :=
              (if isUserCorrected then tf_ageGroup trackedFace else dr_ageGroup detection),
            tf_consecutiveHits := tf_consecutiveHits trackedFace + 1,
            tf_missedFrames := 0,
            tf_lastSeenAt := currentTime,
            tf_detectorUsed := detectorOf detection,
            tf_genderVotes := newGenderVotes,
            tf_ageVotes := newAgeVotes,
            tf_stableGender := stableGender,
            tf_stableAgeGroup := stableAgeGroup,
            tf_isUserCorrected := Some isUserCorrected\<rparr>)"

subsection \<open>Aggregating a viewer of the capture session\<close>

definition updateViewer :: "detectionResult \<Rightarrow> viewerAggregate \<Rightarrow> viewerAggregate" where
  "updateViewer detection existing =
     (let voted =
            (if dr_confidence detection \<ge> MIN_VOTE_CONFIDENCE
             then existing
                    \<lparr>va_genderVotes :=
                       addGenderVote (dr_gender detection) (dr_confidence detection)
                         (va_genderVotes existing),
                     va_ageVotes :=
                       addAgeVote (dr_ageGroup detection) (dr_confidence detection)
                         (va_ageVotes existing)\<rparr>
             else existing)
      in voted
           \<lparr>va_seenFrames := va_seenFrames voted + 1,
            va_bestFaceScore := max (va_bestFaceScore voted) (dr_faceScore detection),
            va_bestConfidence := max (va_bestConfidence voted) (dr_confidence detection),
            va_finalGender := getStableGender (va_genderVotes voted) (va_finalGender voted) noOpts,
            va_finalAgeGroup :=
              getStableAgeGroup (va_ageVotes voted) (va_finalAgeGroup voted) noOpts\<rparr>)"

definition newViewer :: "string \<Rightarrow> detectionResult \<Rightarrow> viewerAggregate" where
  "newViewer id' detection =
     \<lparr>va_trackingId = id',
      va_genderVotes =
        \<lparr>gv_male = (if dr_gender detection = Male then dr_confidence detection else 0),
         gv_female = (if dr_gender detection = Female then dr_confidence detection else 0)\<rparr>,
      va_ageVotes =
        \<lparr>av_kid = (if dr_ageGroup detection = Kid then dr_confidence detection else 0),
         av_young = (if dr_ageGroup detection = Young then dr_confidence detection else 0),
         av_adult = (if dr_ageGroup detection = Adult then dr_confidence detection else 0)\<rparr>,
      va_seenFrames = 1,
      va_bestFaceScore = dr_faceScore detection,
      va_bestConfidence = dr_confidence detection,
      va_finalGender = dr_gender detection,
      va_finalAgeGroup = dr_ageGroup detection\<rparr>"

definition observeViewer :: "string \<Rightarrow> detectionResult \<Rightarrow> captureSession \<Rightarrow> captureSession" where
  "observeViewer id' detection session =
     (case map_of (cs_viewers session) id' of
        Some existing \<Rightarrow>
          session\<lparr>cs_viewers := AList.update id' (updateViewer detection existing) (cs_viewers session)\<rparr>
      | None \<Rightarrow>
          session\<lparr>cs_viewers := AList.update id' (newViewer id' detection) (cs_viewers session)\<rparr>)"

subsection \<open>One detection cycle\<close>

record matchState =
  ms_tracked :: "(string \<times> trackedFace) list"
  ms_session :: "captureSession option"
  ms_matchedIds :: "string set"
  ms_usedDetections :: "nat set"

text \<open>
  The body of the first loop, \<open>for (const [id, trackedFace] of tracked.entries())\<close>.  An
  iteration writes its own key only, so the entry it visits is the entry of the table
  before the loop.
\<close>

definition matchTrack ::
  "cctvDetectionConfig \<Rightarrow> real \<Rightarrow> int \<Rightarrow> detectionResult list \<Rightarrow>
   string \<times> trackedFace \<Rightarrow> matchState \<Rightarrow> matchState" where
  "matchTrack config femaleBoostFactor currentTime results entry ms =
     (let id' = fst entry; trackedFace = snd entry
      in case findBestMatch config trackedFace results (ms_usedDetections ms) of
           None \<Rightarrow> ms
         | Some bestMatch \<Rightarrow>
             let detection = results ! bestMatch
             in \<lparr>ms_tracked =
                   AList.update id' (updateMatched femaleBoostFactor currentTime trackedFace detection)
                     (ms_tracked ms),
                 ms_session =
                   (case ms_session ms of
                      None \<Rightarrow> None
                    | Some session \<Rightarrow>
                        if tf_consecutiveHits trackedFace \<ge> minConsecutiveFrames config
                        then Some (observeViewer id' detection session)
                        else Some session),
                 ms_matchedIds = insert id' (ms_matchedIds ms),
                 ms_usedDetections = insert bestMatch (ms_usedDetections ms)\<rparr>)"

definition matchTracks ::
  "cctvDetectionConfig \<Rightarrow> real \<Rightarrow> int \<Rightarrow> detectionResult list \<Rightarrow>
   (string \<times> trackedFace) list \<Rightarrow> captureSession option \<Rightarrow> matchState" where
  "matchTracks config femaleBoostFactor currentTime results tracked session =
     fold (matchTrack config femaleBoostFactor currentTime results) tracked
       \<lparr>ms_tracked = tracked, ms_session = session, ms_matchedIds = {}, ms_usedDetections = {}\<rparr>"

text \<open>The track created for an unmatched detection.\<close>

definition newTrack :: "real \<Rightarrow> int \<Rightarrow> string \<Rightarrow> detectionResult \<Rightarrow> trackedFace" where
  "newTrack femaleBoostFactor currentTime newId detection =
     (let initialGenderVotes = \<lparr>gv_male = 0, gv_female = 0\<rparr>;
          initialAgeVotes = \<lparr>av_kid = 0, av_young = 0, av_adult = 0\<rparr>;
          (genderVotes', ageVotes') =
            (if dr_confidence detection \<ge> MIN_VOTE_CONFIDENCE
             then
               let voteWeight = dr_confidence detection * min (dr_faceScore detection) 1;
                   confidenceScale = max 0 (1 - (dr_confidence detection - 0.5) * 2);
                   femaleBoost = femaleBoostFactor * confidenceScale
               in ((if dr_gender detection = Male
                    then initialGenderVotes\<lparr>gv_male := voteWeight\<rparr>
                    else initialGenderVotes\<lparr>gv_female := voteWeight * (1 + femaleBoost)\<rparr>),
                   setAgeVote (dr_ageGroup detection) voteWeight initialAgeVotes)
             else (initialGenderVotes, initialAgeVotes))
      in \<lparr>tf_id = newId,
          tf_boundingBox = dr_boundingBox detection,
          tf_velocity = \<lparr>vx = 0, vy = 0\<rparr>,
          tf_confidence = dr_confidence detection,
          tf_faceScore = dr_faceScore detection,
          tf_gender = dr_gender detection,
          tf_ageGroup = dr_ageGroup detection,
          tf_consecutiveHits = 1,
          tf_missedFrames = 0,
          tf_firstSeenAt = currentTime,
          tf_lastSeenAt = currentTime,
          tf_detectorUsed = detectorOf detection,
          tf_genderVotes = genderVotes',
          tf_ageVotes = ageVotes',
          tf_stableGender = dr_gender detection,
          tf_stableAgeGroup = dr_ageGroup detection,
          tf_isUserCorrected = None\<rparr>)"

text \<open>
  The second loop.  \<open>newId i\<close> is the identifier
  \<open>face_${currentTime}_${Math.random()...}\<close> drawn for detection \<open>i\<close>.
\<close>

definition addUnmatched ::
  "real \<Rightarrow> int \<Rightarrow> (nat \<Rightarrow> string) \<Rightarrow> detectionResult list \<Rightarrow> nat set \<Rightarrow>
   (string \<times> trackedFace) list \<Rightarrow> (string \<times> trackedFace) list" where
  "addUnmatched femaleBoostFactor currentTime newId results usedDetections tracked =
     fold (\<lambda>i tr.
             if i \<in> usedDetections then tr
             else AList.update (newId i)
                    (newTrack femaleBoostFactor currentTime (newId i) (results ! i)) tr)
          [0..<length results] tracked"

text \<open>\<open>results.some((_, i) => !usedDetections.has(i))\<close>.\<close>

definition someUnused :: "detectionResult list \<Rightarrow> nat set \<Rightarrow> bool" where
  "someUnused results usedDetections = list_ex (\<lambda>i. i \<notin> usedDetections) [0..<length results]"

text \<open>
  The third loop, over the entries of the table: a track is aged only if it was not
  matched and no detection was left unused; a track over the hold budget is deleted.
\<close>

fun ageTracks ::
  "cctvDetectionConfig \<Rightarrow> string set \<Rightarrow> bool \<Rightarrow>
   (string \<times> trackedFace) list \<Rightarrow> (string \<times> trackedFace) list" where
  "ageTracks config matchedIds unused [] = []"
| "ageTracks config matchedIds unused ((id', trackedFace) # rest) =
     (if id' \<notin> matchedIds \<and> \<not> unused
      then
        let missed = trackedFace\<lparr>tf_missedFrames := tf_missedFrames trackedFace + 1\<rparr>;
            moved =
              (if real_of_int (tf_missedFrames missed) \<le> real_of_int (holdFrames config) / 2
               then missed
                      \<lparr>tf_boundingBox :=
                         (tf_boundingBox missed)
                           \<lparr>box_x := box_x (tf_boundingBox missed) + vx (tf_velocity missed) * 0.5,
                            box_y := box_y (tf_boundingBox missed) + vy (tf_velocity missed) * 0.5\<rparr>\<rparr>
               else missed)
        in if tf_missedFrames moved > holdFrames config
           then ageTracks config matchedIds unused rest
           else (id', moved) # ageTracks config matchedIds unused rest
      else (id', trackedFace) # ageTracks config matchedIds unused rest)"

record loopState =
  ls_tracked :: "(string \<times> trackedFace) list"
  ls_session :: "captureSession option"

text \<open>
  One run of the interval callback of \<open>startDetectionLoop\<close>, after its guard, on the
  \<open>results\<close> that \<open>detectFaces\<close> returned: the track table and the capture session
  before, and after.  \<open>matchPhase\<close> is the cycle up to the end of the first loop (the frame
  count of an open session is incremented, then the tracks are matched).
\<close>

definition matchPhase ::
  "cctvDetectionConfig \<Rightarrow> real \<Rightarrow> int \<Rightarrow> detectionResult list \<Rightarrow> loopState \<Rightarrow> matchState" where
  "matchPhase config femaleBoostFactor currentTime results st =
     (let session1 =
            (case ls_session st of
               None \<Rightarrow> None
             | Some session \<Rightarrow> Some (session\<lparr>cs_frameCount := cs_frameCount session + 1\<rparr>))
      in matchTracks config femaleBoostFactor currentTime results (ls_tracked st) session1)"

definition detectionCycle ::
  "cctvDetectionConfig \<Rightarrow> real \<Rightarrow> int \<Rightarrow> (nat \<Rightarrow> string) \<Rightarrow> detectionResult list \<Rightarrow>
   loopState \<Rightarrow> loopState" where
  "detectionCycle config femaleBoostFactor currentTime newId results st =
     (let ms = matchPhase config femaleBoostFactor currentTime results st;
          tracked2 =
            addUnmatched femaleBoostFactor currentTime newId results (ms_usedDetections ms)
              (ms_tracked ms);
          tracked3 =
            ageTracks config (ms_matchedIds ms) (someUnused results (ms_usedDetections ms)) tracked2
      in \<lparr>ls_tracked = tracked3, ls_session = ms_session ms\<rparr>)"

subsection \<open>Closing the capture window\<close>

text \<open>
  The summary built when the capture window ends and a session is open;
  \<open>minDemographicConfidence\<close> is the setting of that name and \<open>endedAt\<close> the clock.
\<close>

definition closeCaptureSession :: "real \<Rightarrow> int \<Rightarrow> captureSession \<Rightarrow> captureSessionSummary" where
  "closeCaptureSession minDemographicConfidence endedAt session =
     (let stableViewers =
            filter (\<lambda>v. va_bestConfidence v \<ge> minDemographicConfidence)
              (filter (\<lambda>v. va_seenFrames v \<ge> MIN_FRAMES_FOR_SESSION)
                 (map snd (cs_viewers session)));
          sessionDemographics =
            \<lparr>dc_male = int (length (filter (\<lambda>v. va_finalGender v = Male) stableViewers)),
             dc_female = int (length (filter (\<lambda>v. va_finalGender v = Female) stableViewers)),
             dc_kid = int (length (filter (\<lambda>v. va_finalAgeGroup v = Kid) stableViewers)),
             dc_young = int (length (filter (\<lambda>v. va_finalAgeGroup v = Young) stableViewers)),
             dc_adult = int (length (filter (\<lambda>v. va_finalAgeGroup v = Adult) stableViewers))\<rparr>
      in \<lparr>sum_startedAt = cs_startedAt session,
          sum_endedAt = Some endedAt,
          sum_totalFrames = cs_frameCount session,
          sum_uniqueViewers = int (length stableViewers),
          sum_demographics = sessionDemographics,
          sum_viewers = stableViewers\<rparr>)"

subsection \<open>The results of a detection cycle\<close>

text \<open>
  \<open>dedupeResultsByIoU\<close>: the greedy loop of the merger on the final results, by face score,
  with the thresholds \<open>0.6\<close> and \<open>0.9\<close>.
\<close>

fun isDuplicateResult :: "detectionResult list \<Rightarrow> faceBoundingBox \<Rightarrow> bool" where
  "isDuplicateResult [] b = False"
| "isDuplicateResult (k # rest) b =
     (if overlaps 0.6 0.9 (dr_boundingBox k) b then True else isDuplicateResult rest b)"

fun dedupeLoop :: "detectionResult list \<Rightarrow> detectionResult list \<Rightarrow> detectionResult list" where
  "dedupeLoop kept [] = kept"
| "dedupeLoop kept (r # rest) =
     (if isDuplicateResult kept (dr_boundingBox r) then dedupeLoop kept rest
      else dedupeLoop (kept @ [r]) rest)"

definition dedupeResultsByIoU :: "detectionResult list \<Rightarrow> detectionResult list" where
  "dedupeResultsByIoU results =
     (if length results \<le> 1 then results
      else dedupeLoop [] (sort_key (\<lambda>r. - dr_faceScore r) results))"

text \<open>
  \<open>detectFaces\<close> after its guards.  \<open>processDetections\<close> (the filter and the bias
  correction) is a parameter that returns the results or throws; what it throws reaches
  the \<open>catch\<close> around the whole cycle, which returns no results.  The timeout raced
  against the cycle is not modelled.
\<close>

definition detectFaces ::
  "'img frameContext \<Rightarrow> cctvDetectionConfig \<Rightarrow> 'img gateway \<Rightarrow>
   (candidate list \<Rightarrow> 'e + detectionResult list) \<Rightarrow> detectionResult list" where
  "detectFaces ctx config gw processDetections =
     (case processDetections (collectDetections ctx config gw) of
        Inl err \<Rightarrow> []
      | Inr results \<Rightarrow> dedupeResultsByIoU results)"

subsection \<open>Example inputs\<close>

text \<open>
  A face box of 100 by 100 pixels, a detection with face score \<open>0.9\<close> classified young,
  and the track that the tracker creates for a male detection of confidence \<open>0.9\<close> at the
  origin.
\<close>

definition boxAt :: "real \<Rightarrow> real \<Rightarrow> faceBoundingBox" where
  "boxAt x y = \<lparr>box_x = x, box_y = y, box_width = 100, box_height = 100\<rparr>"

definition detectionAt :: "gender \<Rightarrow> real \<Rightarrow> real \<Rightarrow> real \<Rightarrow> detectionResult" where
  "detectionAt g confidence x y =
     \<lparr>dr_gender = g, dr_ageGroup = Young, dr_confidence = confidence, dr_faceScore = 0.9,
      dr_boundingBox = boxAt x y, dr_trackingId = Some ''tiny_0_0''\<rparr>"

definition trackA :: trackedFace where
  "trackA = newTrack 0.15 0 ''face_a'' (detectionAt Male 0.9 0 0)"

text \<open>
  A raw candidate with its score and box wrapped in \<open>detection\<close>, and a recorded frame
  with the SSD model loaded.  The tiny detector of the examples throws at input size 416;
  at the other sizes it finds one face, at the origin, or at \<open>x = 300\<close> when the
  threshold is the \<open>0.08\<close> of Pass 3.  In \<open>flakyGateway\<close> the SSD detector always
  throws, in \<open>flakyTinyGateway\<close> it finds nothing; the canvas factory always succeeds.
  \<open>rescueConfig\<close> is the recorded-source default with enhanced rescue enabled.
\<close>

definition candidateAt :: "real \<Rightarrow> real \<Rightarrow> real \<Rightarrow> candidate" where
  "candidateAt score x y =
     \<lparr>c_detection = Some \<lparr>fd_score = Some score, fd_box = Some (boxAt x y)\<rparr>,
      c_score = None, c_box = None, c_age = 30, c_gender = Male, c_genderProbability = 0.9\<rparr>"

definition cctvFrame :: "nat frameContext" where
  "cctvFrame =
     \<lparr>videoElement = 0, videoWidth = 640, videoHeight = 480, isCCTV = True, ssdLoaded = True\<rparr>"

definition lowThresholdTiny :: "nat \<Rightarrow> real \<Rightarrow> real \<Rightarrow> detectorError + candidate list" where
  "lowThresholdTiny input inputSize threshold =
     (if inputSize = 416 then Inl DetectorError
      else Inr [candidateAt 0.9 (if threshold = 0.08 then 300 else 0) 0])"

definition flakyGateway :: "nat gateway" where
  "flakyGateway =
     \<lparr>tinyFaceDetector = lowThresholdTiny,
      ssdMobilenet = (\<lambda>input threshold. Inl DetectorError),
      createProcessedCanvas = (\<lambda>input options scale region. Some (Suc input))\<rparr>"

definition flakyTinyGateway :: "nat gateway" where
  "flakyTinyGateway =
     \<lparr>tinyFaceDetector = lowThresholdTiny,
      ssdMobilenet = (\<lambda>input threshold. Inr []),
      createProcessedCanvas = (\<lambda>input options scale region. Some (Suc input))\<rparr>"

definition rescueConfig :: cctvDetectionConfig where
  "rescueConfig = DEFAULT_CCTV_CONFIG\<lparr>enableEnhancedRescue := Some True\<rparr>"

text \<open>A spot of the catalog with the given id and targets.\<close>

definition spot :: "string \<Rightarrow> adGender \<Rightarrow> adAgeGroup \<Rightarrow> adMetadata" where
  "spot ident g a =
     \<lparr>ad_id = ident, ad_title = ''Spot'', ad_gender = g, ad_ageGroup = a,
      ad_duration = 30, ad_captureStart = 18, ad_captureEnd = 30\<rparr>"

section \<open>Properties of the bias correction\<close>

text \<open>
  C5.  Bias correction returns its input unchanged when the confidence is outside
  \<open>[0.45, 0.70]\<close>.  Inside the band it takes the female probability (the confidence for a
  female label, its complement for a male one), adds
  \<open>boostFactor * (0.3 + 0.7 * hairScore)\<close>, clamps the sum to at most \<open>0.95\<close>, and returns
  female with that adjusted probability when it is above \<open>0.5\<close>, male with its complement
  otherwise.
\<close>

theorem applyFemaleBoost_spec:
  "(c < 0.45 \<or> c > 0.70 \<longrightarrow>
      applyFemaleBoost g c b h = \<lparr>est_gender = g, est_confidence = c\<rparr>) \<and>
   (0.45 \<le> c \<and> c \<le> 0.70 \<longrightarrow>
      (let p = min 0.95 ((if g = Female then c else 1 - c) + b * (0.3 + 0.7 * h))
       in p \<le> 0.95 \<and>
          applyFemaleBoost g c b h =
            (if p > 0.5 then \<lparr>est_gender = Female, est_confidence = p\<rparr>
             else \<lparr>est_gender = Male, est_confidence = 1 - p\<rparr>)))"
proof -
  have comm: "h * 0.7 = 0.7 * h"
    by simp
  show ?thesis
    unfolding applyFemaleBoost_def Let_def comm
    by (auto simp add: min_def)
qed

theorem applyFemaleBoost_spec_witness:
  "applyFemaleBoost Male 0.9 0.15 0.5 = \<lparr>est_gender = Male, est_confidence = 0.9\<rparr> \<and>
   applyFemaleBoost Male 0.55 0.15 1 = \<lparr>est_gender = Female, est_confidence = 0.6\<rparr> \<and>
   applyFemaleBoost Male 0.7 0.15 0 = \<lparr>est_gender = Male, est_confidence = 0.655\<rparr>"
  using applyFemaleBoost_spec [of "0.9" Male "0.15" "0.5"]
    applyFemaleBoost_spec [of "0.55" Male "0.15" 1]
    applyFemaleBoost_spec [of "0.7" Male "0.15" 0]
  by (simp add: Let_def)

text \<open>
  C10.  The boost can relabel an uncertain female input as male: the input
  \<open>(female, 0.45)\<close> is inside the correction band, and for every boost factor and hair
  score with \<open>boostFactor * (0.3 + 0.7 * hairScore) \<le> 0.05\<close> the adjusted female
  probability is at most \<open>0.5\<close>, so the function returns male.
\<close>

theorem applyFemaleBoost_flips_female:
  "(\<exists>c b h. est_gender (applyFemaleBoost Female c b h) = Male) \<and>
   (\<forall>b h. b * (0.3 + 0.7 * h) \<le> 0.05 \<longrightarrow>
      \<not> ((0.45::real) < 0.45 \<or> (0.45::real) > 0.70) \<and>
      min 0.95 (0.45 + b * (0.3 + 0.7 * h)) \<le> 0.5 \<and>
      applyFemaleBoost Female 0.45 b h =
        \<lparr>est_gender = Male, est_confidence = 1 - (0.45 + b * (0.3 + 0.7 * h))\<rparr>)"
proof
  have "est_gender (applyFemaleBoost Female 0.45 0 0) = Male"
    by (simp add: applyFemaleBoost_def Let_def)
  then show "\<exists>c b h. est_gender (applyFemaleBoost Female c b h) = Male"
    by blast
next
  show "\<forall>b h. b * (0.3 + 0.7 * h) \<le> 0.05 \<longrightarrow>
      \<not> ((0.45::real) < 0.45 \<or> (0.45::real) > 0.70) \<and>
      min 0.95 (0.45 + b * (0.3 + 0.7 * h)) \<le> 0.5 \<and>
      applyFemaleBoost Female 0.45 b h =
        \<lparr>est_gender = Male, est_confidence = 1 - (0.45 + b * (0.3 + 0.7 * h))\<rparr>"
  proof (intro allI impI)
    fix b h :: real
    assume le: "b * (0.3 + 0.7 * h) \<le> 0.05"
    then have m: "min 0.95 (0.45 + b * (0.3 + 0.7 * h)) = 0.45 + b * (0.3 + 0.7 * h)"
      by simp
    have comm: "b * (0.3 + h * 0.7) = b * (0.3 + 0.7 * h)"
      by (simp add: mult.commute)
    show "\<not> ((0.45::real) < 0.45 \<or> (0.45::real) > 0.70) \<and>
      min 0.95 (0.45 + b * (0.3 + 0.7 * h)) \<le> 0.5 \<and>
      applyFemaleBoost Female 0.45 b h =
        \<lparr>est_gender = Male, est_confidence = 1 - (0.45 + b * (0.3 + 0.7 * h))\<rparr>"
      using le unfolding applyFemaleBoost_def Let_def comm m by simp
  qed
qed

theorem applyFemaleBoost_flips_female_witness:
  "applyFemaleBoost Female 0.45 0.05 0 = \<lparr>est_gender = Male, est_confidence = 0.535\<rparr>"
  using applyFemaleBoost_flips_female by simp

section \<open>Properties of the ad queue scorer\<close>

text \<open>
  C1.  For every spot and every vector of counts, with the dominant gender male when the
  male count is at least the female count and female otherwise, and the dominant age kid
  when the kid count is at least both others, else adult when the adult count is above
  both others, else young (so that each dominant bucket has the highest count): the
  score is \<open>10\<close> when the spot's gender and age both equal the dominant ones; otherwise
  \<open>5\<close> when both criteria are satisfied, at least one of them by the wildcard; otherwise
  \<open>3\<close> when exactly one of gender and age equals the dominant one; otherwise \<open>-5\<close>; and
  \<open>3\<close> less when the spot's id is the last-played id.  The cases are read in the order
  in which the code tests them.  Against the demographics
  \<open>{male: 5, female: 1, kid: 0, young: 4, adult: 1}\<close> a spot that was not just played
  scores \<open>10\<close> for male and young, \<open>5\<close> for all and all, \<open>3\<close> for female and young.
\<close>

theorem scoreAd_scoring:
  "(let dg = (if dc_male d \<ge> dc_female d then AdMale else AdFemale);
        da = (if dc_kid d \<ge> dc_young d \<and> dc_kid d \<ge> dc_adult d then AdKid
              else if dc_adult d > dc_young d \<and> dc_adult d > dc_kid d then AdAdult
              else AdYoung)
    in as_score (scoreAd lastPlayedId ad d) =
         (if ad_gender ad = dg \<and> ad_ageGroup ad = da then 10
          else if (ad_gender ad = dg \<or> ad_gender ad = AdAllGenders) \<and>
                  (ad_ageGroup ad = da \<or> ad_ageGroup ad = AdAllAges) then 5
          else if (ad_gender ad = dg) \<noteq> (ad_ageGroup ad = da) then 3
          else - 5)
         + (if lastPlayedId = Some (ad_id ad) then - 3 else 0) \<and>
       (case dg of AdMale \<Rightarrow> dc_male d | AdFemale \<Rightarrow> dc_female d | AdAllGenders \<Rightarrow> 0)
         = max (dc_male d) (dc_female d) \<and>
       (case da of AdKid \<Rightarrow> dc_kid d | AdYoung \<Rightarrow> dc_young d | AdAdult \<Rightarrow> dc_adult d
          | AdAllAges \<Rightarrow> 0)
         = max (dc_kid d) (max (dc_young d) (dc_adult d))) \<and>
   (lastPlayedId \<noteq> Some (ad_id ad) \<longrightarrow>
      (ad_gender ad = AdMale \<and> ad_ageGroup ad = AdYoung \<longrightarrow>
         as_score (scoreAd lastPlayedId ad
           \<lparr>dc_male = 5, dc_female = 1, dc_kid = 0, dc_young = 4, dc_adult = 1\<rparr>) = 10) \<and>
      (ad_gender ad = AdAllGenders \<and> ad_ageGroup ad = AdAllAges \<longrightarrow>
         as_score (scoreAd lastPlayedId ad
           \<lparr>dc_male = 5, dc_female = 1, dc_kid = 0, dc_young = 4, dc_adult = 1\<rparr>) = 5) \<and>
      (ad_gender ad = AdFemale \<and> ad_ageGroup ad = AdYoung \<longrightarrow>
         as_score (scoreAd lastPlayedId ad
           \<lparr>dc_male = 5, dc_female = 1, dc_kid = 0, dc_young = 4, dc_adult = 1\<rparr>) = 3))"
  by (auto simp add: scoreAd_def Let_def dominantGender_def dominantAge_def)

theorem scoreAd_scoring_witness:
  "as_score (scoreAd None (spot ''ad1'' AdMale AdYoung)
      \<lparr>dc_male = 5, dc_female = 1, dc_kid = 0, dc_young = 4, dc_adult = 1\<rparr>) = 10 \<and>
   as_score (scoreAd (Some ''ad1'') (spot ''ad1'' AdMale AdYoung)
      \<lparr>dc_male = 5, dc_female = 1, dc_kid = 0, dc_young = 4, dc_adult = 1\<rparr>) = 7 \<and>
   as_score (scoreAd None (spot ''ad2'' AdFemale AdKid)
      \<lparr>dc_male = 1, dc_female = 5, dc_kid = 6, dc_young = 2, dc_adult = 1\<rparr>) = 10 \<and>
   as_score (scoreAd None (spot ''ad1'' AdMale AdYoung)
      \<lparr>dc_male = 1, dc_female = 5, dc_kid = 6, dc_young = 2, dc_adult = 1\<rparr>) = - 5 \<and>
   as_score (scoreAd None (spot ''ad3'' AdMale AdKid)
      \<lparr>dc_male = 1, dc_female = 5, dc_kid = 6, dc_young = 2, dc_adult = 1\<rparr>) = 3 \<and>
   as_score (scoreAd None (spot ''ad4'' AdMale AdAdult)
      \<lparr>dc_male = 2, dc_female = 2, dc_kid = 0, dc_young = 1, dc_adult = 4\<rparr>) = 10 \<and>
   as_score (scoreAd None (spot ''ad5'' AdAllGenders AdAdult)
      \<lparr>dc_male = 2, dc_female = 2, dc_kid = 0, dc_young = 1, dc_adult = 4\<rparr>) = 5 \<and>
   as_score (scoreAd None (spot ''ad6'' AdAllGenders AdYoung)
      \<lparr>dc_male = 2, dc_female = 2, dc_kid = 0, dc_young = 1, dc_adult = 4\<rparr>) = - 5"
  using
    scoreAd_scoring [of "\<lparr>dc_male = 5, dc_female = 1, dc_kid = 0, dc_young = 4, dc_adult = 1\<rparr>"
      None "spot ''ad1'' AdMale AdYoung"]
    scoreAd_scoring [of "\<lparr>dc_male = 5, dc_female = 1, dc_kid = 0, dc_young = 4, dc_adult = 1\<rparr>"
      "Some ''ad1''" "spot ''ad1'' AdMale AdYoung"]
    scoreAd_scoring [of "\<lparr>dc_male = 1, dc_female = 5, dc_kid = 6, dc_young = 2, dc_adult = 1\<rparr>"
      None "spot ''ad2'' AdFemale AdKid"]
    scoreAd_scoring [of "\<lparr>dc_male = 1, dc_female = 5, dc_kid = 6, dc_young = 2, dc_adult = 1\<rparr>"
      None "spot ''ad1'' AdMale AdYoung"]
    scoreAd_scoring [of "\<lparr>dc_male = 1, dc_female = 5, dc_kid = 6, dc_young = 2, dc_adult = 1\<rparr>"
      None "spot ''ad3'' AdMale AdKid"]
    scoreAd_scoring [of "\<lparr>dc_male = 2, dc_female = 2, dc_kid = 0, dc_young = 1, dc_adult = 4\<rparr>"
      None "spot ''ad4'' AdMale AdAdult"]
    scoreAd_scoring [of "\<lparr>dc_male = 2, dc_female = 2, dc_kid = 0, dc_young = 1, dc_adult = 4\<rparr>"
      None "spot ''ad5'' AdAllGenders AdAdult"]
    scoreAd_scoring [of "\<lparr>dc_male = 2, dc_female = 2, dc_kid = 0, dc_young = 1, dc_adult = 4\<rparr>"
      None "spot ''ad6'' AdAllGenders AdYoung"]
  by (simp add: Let_def spot_def)

section \<open>Properties of the capture session summary\<close>

lemma stableViewers_filter:
  "sum_viewers (closeCaptureSession minConf endedAt session) =
     filter (\<lambda>v. va_seenFrames v \<ge> 2 \<and> va_bestConfidence v \<ge> minConf) (map snd (cs_viewers session))"
  by (simp add: closeCaptureSession_def Let_def MIN_FRAMES_FOR_SESSION_def conj_commute)

lemma gender_partition:
  "length (filter (\<lambda>v. va_finalGender v = Male) vs) + length (filter (\<lambda>v. va_finalGender v = Female) vs)
     = length vs"
proof (induction vs)
  case Nil
  then show ?case by simp
next
  case (Cons v vs)
  then show ?case by (cases "va_finalGender v") simp_all
qed

lemma age_partition:
  "length (filter (\<lambda>v. va_finalAgeGroup v = Kid) vs) + length (filter (\<lambda>v. va_finalAgeGroup v = Young) vs)
     + length (filter (\<lambda>v. va_finalAgeGroup v = Adult) vs) = length vs"
proof (induction vs)
  case Nil
  then show ?case by simp
next
  case (Cons v vs)
  then show ?case by (cases "va_finalAgeGroup v") simp_all
qed

text \<open>
  C2.  When the capture session closes, a viewer is in the summary if and only if it was
  aggregated in the session, its \<open>seenFrames\<close> is at least \<open>2\<close> and its \<open>bestConfidence\<close>
  is at least the configured minimum; \<open>uniqueViewers\<close> and the five demographic counts
  count exactly these viewers; a viewer with \<open>seenFrames = 1\<close> is never in the summary.
\<close>

theorem closeCaptureSession_counts:
  "(\<forall>v. v \<in> set (sum_viewers (closeCaptureSession minConf endedAt session)) \<longleftrightarrow>
        v \<in> snd ` set (cs_viewers session) \<and> va_seenFrames v \<ge> 2 \<and> va_bestConfidence v \<ge> minConf) \<and>
   sum_uniqueViewers (closeCaptureSession minConf endedAt session) =
     int (length (filter (\<lambda>v. va_seenFrames v \<ge> 2 \<and> va_bestConfidence v \<ge> minConf)
                    (map snd (cs_viewers session)))) \<and>
   dc_male (sum_demographics (closeCaptureSession minConf endedAt session)) =
     int (length (filter (\<lambda>v. va_finalGender v = Male)
            (filter (\<lambda>v. va_seenFrames v \<ge> 2 \<and> va_bestConfidence v \<ge> minConf)
               (map snd (cs_viewers session))))) \<and>
   dc_female (sum_demographics (closeCaptureSession minConf endedAt session)) =
     int (length (filter (\<lambda>v. va_finalGender v = Female)
            (filter (\<lambda>v. va_seenFrames v \<ge> 2 \<and> va_bestConfidence v \<ge> minConf)
               (map snd (cs_viewers session))))) \<and>
   dc_kid (sum_demographics (closeCaptureSession minConf endedAt session)) =
     int (length (filter (\<lambda>v. va_finalAgeGroup v = Kid)
            (filter (\<lambda>v. va_seenFrames v \<ge> 2 \<and> va_bestConfidence v \<ge> minConf)
               (map snd (cs_viewers session))))) \<and>
   dc_young (sum_demographics (closeCaptureSession minConf endedAt session)) =
     int (length (filter (\<lambda>v. va_finalAgeGroup v = Young)
            (filter (\<lambda>v. va_seenFrames v \<ge> 2 \<and> va_bestConfidence v \<ge> minConf)
               (map snd (cs_viewers session))))) \<and>
   dc_adult (sum_demographics (closeCaptureSession minConf endedAt session)) =
     int (length (filter (\<lambda>v. va_finalAgeGroup v = Adult)
            (filter (\<lambda>v. va_seenFrames v \<ge> 2 \<and> va_bestConfidence v \<ge> minConf)
               (map snd (cs_viewers session))))) \<and>
   dc_male (sum_demographics (closeCaptureSession minConf endedAt session))
     + dc_female (sum_demographics (closeCaptureSession minConf endedAt session))
     = sum_uniqueViewers (closeCaptureSession minConf endedAt session) \<and>
   dc_kid (sum_demographics (closeCaptureSession minConf endedAt session))
     + dc_young (sum_demographics (closeCaptureSession minConf endedAt session))
     + dc_adult (sum_demographics (closeCaptureSession minConf endedAt session))
     = sum_uniqueViewers (closeCaptureSession minConf endedAt session) \<and>
   (\<forall>v. va_seenFrames v = 1 \<longrightarrow>
        v \<notin> set (sum_viewers (closeCaptureSession minConf endedAt session)))"
proof -
  let ?q = "\<lambda>v. va_seenFrames v \<ge> 2 \<and> va_bestConfidence v \<ge> minConf"
  let ?vs = "filter ?q (map snd (cs_viewers session))"
  let ?s = "closeCaptureSession minConf endedAt session"
  have v: "sum_viewers ?s = ?vs"
    by (rule stableViewers_filter)
  have stable: "filter (\<lambda>v. va_bestConfidence v \<ge> minConf)
        (filter (\<lambda>v. va_seenFrames v \<ge> MIN_FRAMES_FOR_SESSION) (map snd (cs_viewers session))) = ?vs"
    by (simp add: MIN_FRAMES_FOR_SESSION_def conj_commute)
  have u: "sum_uniqueViewers ?s = int (length ?vs)"
    unfolding closeCaptureSession_def Let_def stable by simp
  have dm: "dc_male (sum_demographics ?s) = int (length (filter (\<lambda>v. va_finalGender v = Male) ?vs))"
    unfolding closeCaptureSession_def Let_def stable by simp
  have df: "dc_female (sum_demographics ?s) = int (length (filter (\<lambda>v. va_finalGender v = Female) ?vs))"
    unfolding closeCaptureSession_def Let_def stable by simp
  have dk: "dc_kid (sum_demographics ?s) = int (length (filter (\<lambda>v. va_finalAgeGroup v = Kid) ?vs))"
    unfolding closeCaptureSession_def Let_def stable by simp
  have dy: "dc_young (sum_demographics ?s) = int (length (filter (\<lambda>v. va_finalAgeGroup v = Young) ?vs))"
    unfolding closeCaptureSession_def Let_def stable by simp
  have da: "dc_adult (sum_demographics ?s) = int (length (filter (\<lambda>v. va_finalAgeGroup v = Adult) ?vs))"
    unfolding closeCaptureSession_def Let_def stable by simp
  have g: "dc_male (sum_demographics ?s) + dc_female (sum_demographics ?s) = sum_uniqueViewers ?s"
    unfolding dm df u using gender_partition [of ?vs] by linarith
  have a: "dc_kid (sum_demographics ?s) + dc_young (sum_demographics ?s) + dc_adult (sum_demographics ?s)
             = sum_uniqueViewers ?s"
    unfolding dk dy da u using age_partition [of ?vs] by linarith
  have mem: "\<forall>v. v \<in> set (sum_viewers ?s) \<longleftrightarrow> v \<in> snd ` set (cs_viewers session) \<and> ?q v"
    unfolding v by auto
  have one: "\<forall>v. va_seenFrames v = 1 \<longrightarrow> v \<notin> set (sum_viewers ?s)"
    unfolding v by auto
  show ?thesis
    using mem u dm df dk dy da g a one by blast
qed

theorem closeCaptureSession_counts_witness:
  "\<lparr>va_trackingId = ''a'', va_genderVotes = \<lparr>gv_male = 0.99, gv_female = 0\<rparr>,
     va_ageVotes = \<lparr>av_kid = 0, av_young = 0.99, av_adult = 0\<rparr>, va_seenFrames = 1,
     va_bestFaceScore = 0.9, va_bestConfidence = 0.99, va_finalGender = Male,
     va_finalAgeGroup = Young\<rparr>
   \<notin> set (sum_viewers (closeCaptureSession 0.75 100
     \<lparr>cs_startedAt = 0, cs_frameCount = 5, cs_viewers =
        [(''a'', \<lparr>va_trackingId = ''a'', va_genderVotes = \<lparr>gv_male = 0.99, gv_female = 0\<rparr>,
            va_ageVotes = \<lparr>av_kid = 0, av_young = 0.99, av_adult = 0\<rparr>, va_seenFrames = 1,
            va_bestFaceScore = 0.9, va_bestConfidence = 0.99, va_finalGender = Male,
            va_finalAgeGroup = Young\<rparr>),
         (''b'', \<lparr>va_trackingId = ''b'', va_genderVotes = \<lparr>gv_male = 0, gv_female = 2.4\<rparr>,
            va_ageVotes = \<lparr>av_kid = 0, av_young = 0, av_adult = 2.4\<rparr>, va_seenFrames = 3,
            va_bestFaceScore = 0.9, va_bestConfidence = 0.8, va_finalGender = Female,
            va_finalAgeGroup = Adult\<rparr>)]\<rparr>)) \<and>
   \<lparr>va_trackingId = ''b'', va_genderVotes = \<lparr>gv_male = 0, gv_female = 2.4\<rparr>,
     va_ageVotes = \<lparr>av_kid = 0, av_young = 0, av_adult = 2.4\<rparr>, va_seenFrames = 3,
     va_bestFaceScore = 0.9, va_bestConfidence = 0.8, va_finalGender = Female,
     va_finalAgeGroup = Adult\<rparr>
   \<in> set (sum_viewers (closeCaptureSession 0.75 100
     \<lparr>cs_startedAt = 0, cs_frameCount = 5, cs_viewers =
        [(''a'', \<lparr>va_trackingId = ''a'', va_genderVotes = \<lparr>gv_male = 0.99, gv_female = 0\<rparr>,
            va_ageVotes = \<lparr>av_kid = 0, av_young = 0.99, av_adult = 0\<rparr>, va_seenFrames = 1,
            va_bestFaceScore = 0.9, va_bestConfidence = 0.99, va_finalGender = Male,
            va_finalAgeGroup = Young\<rparr>),
         (''b'', \<lparr>va_trackingId = ''b'', va_genderVotes = \<lparr>gv_male = 0, gv_female = 2.4\<rparr>,
            va_ageVotes = \<lparr>av_kid = 0, av_young = 0, av_adult = 2.4\<rparr>, va_seenFrames = 3,
            va_bestFaceScore = 0.9, va_bestConfidence = 0.8, va_finalGender = Female,
            va_finalAgeGroup = Adult\<rparr>)]\<rparr>)) \<and>
   sum_uniqueViewers (closeCaptureSession 0.75 100
     \<lparr>cs_startedAt = 0, cs_frameCount = 5, cs_viewers =
        [(''a'', \<lparr>va_trackingId = ''a'', va_genderVotes = \<lparr>gv_male = 0.99, gv_female = 0\<rparr>,
            va_ageVotes = \<lparr>av_kid = 0, av_young = 0.99, av_adult = 0\<rparr>, va_seenFrames = 1,
            va_bestFaceScore = 0.9, va_bestConfidence = 0.99, va_finalGender = Male,
            va_finalAgeGroup = Young\<rparr>),
         (''b'', \<lparr>va_trackingId = ''b'', va_genderVotes = \<lparr>gv_male = 0, gv_female = 2.4\<rparr>,
            va_ageVotes = \<lparr>av_kid = 0, av_young = 0, av_adult = 2.4\<rparr>, va_seenFrames = 3,
            va_bestFaceScore = 0.9, va_bestConfidence = 0.8, va_finalGender = Female,
            va_finalAgeGroup = Adult\<rparr>)]\<rparr>) = 1"
  using closeCaptureSession_counts [of "0.75" 100
     "\<lparr>cs_startedAt = 0, cs_frameCount = 5, cs_viewers =
        [(''a'', \<lparr>va_trackingId = ''a'', va_genderVotes = \<lparr>gv_male = 0.99, gv_female = 0\<rparr>,
            va_ageVotes = \<lparr>av_kid = 0, av_young = 0.99, av_adult = 0\<rparr>, va_seenFrames = 1,
            va_bestFaceScore = 0.9, va_bestConfidence = 0.99, va_finalGender = Male,
            va_finalAgeGroup = Young\<rparr>),
         (''b'', \<lparr>va_trackingId = ''b'', va_genderVotes = \<lparr>gv_male = 0, gv_female = 2.4\<rparr>,
            va_ageVotes = \<lparr>av_kid = 0, av_young = 0, av_adult = 2.4\<rparr>, va_seenFrames = 3,
            va_bestFaceScore = 0.9, va_bestConfidence = 0.8, va_finalGender = Female,
            va_finalAgeGroup = Adult\<rparr>)]\<rparr>"]
  by simp

section \<open>Properties of the detection merger\<close>

lemma mergeLoop_append:
  "mergeLoop i c acc (xs @ ys) = mergeLoop i c (mergeLoop i c acc xs) ys"
  by (induction xs arbitrary: acc) (auto split: option.splits)

lemma mergeLoop_sorted:
  "sorted (map f (acc @ xs)) \<Longrightarrow> sorted (map f (mergeLoop i c acc xs))"
proof (induction xs arbitrary: acc)
  case Nil
  then show ?case by simp
next
  case (Cons x xs)
  have drop: "sorted (map f (acc @ xs))"
    using Cons.prems by (simp add: sorted_append)
  have keep: "sorted (map f ((acc @ [x]) @ xs))"
    using Cons.prems by simp
  show ?case
    using Cons.IH [OF drop] Cons.IH [OF keep]
    by (simp split: option.splits)
qed

lemma mergeLoop_fixed:
  "mergeLoop i c [] acc = acc \<Longrightarrow> mergeLoop i c [] (mergeLoop i c acc xs) = mergeLoop i c acc xs"
proof (induction xs arbitrary: acc)
  case Nil
  then show ?case by simp
next
  case (Cons x xs)
  show ?case
  proof (cases "getBox x")
    case None
    then show ?thesis using Cons.IH [OF Cons.prems] by simp
  next
    case (Some boxB)
    show ?thesis
    proof (cases "isDuplicate i c acc boxB")
      case True
      then show ?thesis using Some Cons.IH [OF Cons.prems] by simp
    next
      case False
      have "mergeLoop i c [] (acc @ [x]) = mergeLoop i c (mergeLoop i c [] acc) [x]"
        by (rule mergeLoop_append)
      also have "\<dots> = acc @ [x]"
        using Cons.prems Some False by simp
      finally have kept: "mergeLoop i c [] (acc @ [x]) = acc @ [x]" .
      show ?thesis using Some False Cons.IH [OF kept] by simp
    qed
  qed
qed

text \<open>
  C7.  Merging is idempotent: merging the output of a merge, with the same thresholds,
  returns that output.
\<close>

theorem mergeDetections_idempotent:
  "mergeDetections (mergeDetections ds w h i c) w h i c = mergeDetections ds w h i c"
proof (cases "length ds = 0")
  case True
  then show ?thesis by (simp add: mergeDetections_def)
next
  case False
  let ?f = "\<lambda>d. - getScore d"
  let ?m = "mergeLoop i c [] (sort_key ?f ds)"
  have srt: "sorted (map ?f ?m)"
    using mergeLoop_sorted [of ?f "[]" "sort_key ?f ds" i c] by simp
  have id: "sort_key ?f ?m = ?m"
    using srt by (rule sort_key_id_if_sorted)
  have fx: "mergeLoop i c [] ?m = ?m"
    using mergeLoop_fixed [of i c "[]" "sort_key ?f ds"] by simp
  show ?thesis
    using False id fx by (simp add: mergeDetections_def Let_def)
qed

lemma merge_example:
  "mergeDetections [candidateAt 0.8 10 10, candidateAt 0.9 0 0, candidateAt 0.7 600 800]
     640 480 0.55 0.85 = [candidateAt 0.9 0 0, candidateAt 0.7 600 800]"
  by (simp add: mergeDetections_def candidateAt_def getScore_def getBox_def overlaps_def
      boxAt_def Let_def)

theorem mergeDetections_idempotent_witness:
  "mergeDetections
     (mergeDetections [candidateAt 0.8 10 10, candidateAt 0.9 0 0, candidateAt 0.7 600 800]
        640 480 0.55 0.85)
     640 480 0.55 0.85 = [candidateAt 0.9 0 0, candidateAt 0.7 600 800]"
  using mergeDetections_idempotent
    [of "[candidateAt 0.8 10 10, candidateAt 0.9 0 0, candidateAt 0.7 600 800]" 640 480 "0.55" "0.85"]
  unfolding merge_example .

section \<open>Properties of the rescue thresholds\<close>

lemma rescueThreshold_ge_pass1: "pass1Threshold config \<le> rescueThreshold config"
  by (simp add: pass1Threshold_def rescueThreshold_def detectionThreshold_def max_def)

lemma rescueThreshold_strict_iff:
  "pass1Threshold config < rescueThreshold config \<longleftrightarrow> sensitivity config < 0.22"
  by (auto simp add: pass1Threshold_def rescueThreshold_def detectionThreshold_def max_def)

text \<open>
  C6.  Pass 2 runs exactly when the source is recorded, the detector tier is not \<open>tiny\<close>
  and either fewer than three candidates were found or enhanced rescue is enabled; its
  threshold is meant to be strictly greater than that of Pass 1.  At sensitivity \<open>0.5\<close>,
  with no candidate from Pass 1, Pass 2 runs and both thresholds are \<open>0.4\<close>.
\<close>

theorem rescueThreshold_not_stricter:
  "shouldRunPass2 True (DEFAULT_CCTV_CONFIG\<lparr>sensitivity := 0.5\<rparr>) [] \<and>
   pass1Threshold (DEFAULT_CCTV_CONFIG\<lparr>sensitivity := 0.5\<rparr>) = 0.4 \<and>
   rescueThreshold (DEFAULT_CCTV_CONFIG\<lparr>sensitivity := 0.5\<rparr>) = 0.4 \<and>
   \<not> pass1Threshold (DEFAULT_CCTV_CONFIG\<lparr>sensitivity := 0.5\<rparr>)
       < rescueThreshold (DEFAULT_CCTV_CONFIG\<lparr>sensitivity := 0.5\<rparr>)"
  by (simp add: shouldRunPass2_def pass1Threshold_def rescueThreshold_def detectionThreshold_def
      DEFAULT_CCTV_CONFIG_def)

section \<open>Properties of the tracker\<close>

subsection \<open>The three loops of a cycle\<close>

paragraph \<open>The first loop\<close>

lemma set_update_subset:
  "(k', v') \<in> set (AList.update k v al) \<Longrightarrow> (k', v') = (k, v) \<or> (k', v') \<in> set al"
  by (induction al) (auto split: if_splits)

lemma matchTrack_other:
  "k \<noteq> fst entry \<Longrightarrow>
   map_of (ms_tracked (matchTrack config fbf now results entry ms)) k = map_of (ms_tracked ms) k"
  by (simp add: matchTrack_def Let_def update_conv' split: option.splits)

lemma matchTrack_unmatched:
  "fst entry \<notin> ms_matchedIds (matchTrack config fbf now results entry ms) \<Longrightarrow>
   ms_tracked (matchTrack config fbf now results entry ms) = ms_tracked ms"
  by (simp add: matchTrack_def Let_def split: option.splits)

lemma matchTrack_matchedIds_mono:
  "ms_matchedIds ms \<subseteq> ms_matchedIds (matchTrack config fbf now results entry ms)"
  by (auto simp add: matchTrack_def Let_def split: option.splits)

lemma matchTrack_keys:
  "fst entry \<in> fst ` set (ms_tracked ms) \<Longrightarrow>
   map fst (ms_tracked (matchTrack config fbf now results entry ms)) = map fst (ms_tracked ms)"
  by (simp add: matchTrack_def Let_def update_keys split: option.splits)

lemma matchTrack_values:
  "(k, v) \<in> set (ms_tracked (matchTrack config fbf now results entry ms)) \<Longrightarrow>
   (k, v) \<in> set (ms_tracked ms) \<or>
   (k = fst entry \<and> k \<in> ms_matchedIds (matchTrack config fbf now results entry ms) \<and>
    (\<exists>d. v = updateMatched fbf now (snd entry) d))"
  by (auto simp add: matchTrack_def Let_def split: option.splits dest: set_update_subset)

lemma fold_matchTrack_matchedIds_mono:
  "ms_matchedIds ms \<subseteq> ms_matchedIds (fold (matchTrack config fbf now results) es ms)"
proof (induction es arbitrary: ms)
  case Nil
  then show ?case by simp
next
  case (Cons e es)
  show ?case
    using matchTrack_matchedIds_mono [of ms config fbf now results e]
      Cons.IH [of "matchTrack config fbf now results e ms"]
    by auto
qed

lemma fold_matchTrack_unmatched:
  "k \<notin> ms_matchedIds (fold (matchTrack config fbf now results) es ms) \<Longrightarrow>
   map_of (ms_tracked (fold (matchTrack config fbf now results) es ms)) k = map_of (ms_tracked ms) k"
proof (induction es arbitrary: ms)
  case Nil
  then show ?case by simp
next
  case (Cons e es)
  let ?ms1 = "matchTrack config fbf now results e ms"
  have rest: "map_of (ms_tracked (fold (matchTrack config fbf now results) es ?ms1)) k
                = map_of (ms_tracked ?ms1) k"
    using Cons.prems by (intro Cons.IH) simp
  have "k \<notin> ms_matchedIds ?ms1"
    using Cons.prems fold_matchTrack_matchedIds_mono [of ?ms1 config fbf now results es]
    by auto
  then have "map_of (ms_tracked ?ms1) k = map_of (ms_tracked ms) k"
    using matchTrack_other [of k e] matchTrack_unmatched [of e config fbf now results ms]
    by (cases "k = fst e") auto
  then show ?case
    using rest by simp
qed

lemma fold_matchTrack_keys:
  "fst ` set es \<subseteq> fst ` set (ms_tracked ms) \<Longrightarrow>
   map fst (ms_tracked (fold (matchTrack config fbf now results) es ms)) = map fst (ms_tracked ms)"
proof (induction es arbitrary: ms)
  case Nil
  then show ?case by simp
next
  case (Cons e es)
  let ?ms1 = "matchTrack config fbf now results e ms"
  have k1: "map fst (ms_tracked ?ms1) = map fst (ms_tracked ms)"
    using Cons.prems by (intro matchTrack_keys) simp
  then have "fst ` set (ms_tracked ?ms1) = fst ` set (ms_tracked ms)"
    by (metis set_map)
  then have "fst ` set es \<subseteq> fst ` set (ms_tracked ?ms1)"
    using Cons.prems by simp
  then show ?case
    using Cons.IH [of ?ms1] k1 by simp
qed

lemma fold_matchTrack_values:
  "(k, v) \<in> set (ms_tracked (fold (matchTrack config fbf now results) es ms)) \<Longrightarrow>
   (k, v) \<in> set (ms_tracked ms) \<or>
   (k \<in> ms_matchedIds (fold (matchTrack config fbf now results) es ms) \<and>
    (\<exists>t d. (k, t) \<in> set es \<and> v = updateMatched fbf now t d))"
proof (induction es arbitrary: ms)
  case Nil
  then show ?case by simp
next
  case (Cons e es)
  let ?ms1 = "matchTrack config fbf now results e ms"
  let ?ms2 = "fold (matchTrack config fbf now results) es ?ms1"
  from Cons.prems have "(k, v) \<in> set (ms_tracked ?ms2)"
    by simp
  from Cons.IH [OF this]
  consider (old) "(k, v) \<in> set (ms_tracked ?ms1)"
    | (new) "k \<in> ms_matchedIds ?ms2" "\<exists>t d. (k, t) \<in> set es \<and> v = updateMatched fbf now t d"
    by blast
  then show ?case
  proof cases
    case old
    from matchTrack_values [OF old]
    show ?thesis
    proof
      assume "(k, v) \<in> set (ms_tracked ms)"
      then show ?thesis by simp
    next
      assume m: "k = fst e \<and> k \<in> ms_matchedIds ?ms1 \<and> (\<exists>d. v = updateMatched fbf now (snd e) d)"
      then have "k \<in> ms_matchedIds ?ms2"
        using fold_matchTrack_matchedIds_mono [of ?ms1 config fbf now results es] by auto
      moreover have "\<exists>t d. (k, t) \<in> set (e # es) \<and> v = updateMatched fbf now t d"
        using m by (cases e) auto
      ultimately show ?thesis by simp
    qed
  next
    case new
    then show ?thesis by auto
  qed
qed

text \<open>What the first loop of a cycle does to the table.\<close>

lemma matchPhase_unmatched:
  "k \<notin> ms_matchedIds (matchPhase config fbf now results st) \<Longrightarrow>
   map_of (ms_tracked (matchPhase config fbf now results st)) k = map_of (ls_tracked st) k"
  unfolding matchPhase_def matchTracks_def Let_def
  using fold_matchTrack_unmatched
    [of k config fbf now results "ls_tracked st"]
  by fastforce

lemma matchPhase_keys:
  "map fst (ms_tracked (matchPhase config fbf now results st)) = map fst (ls_tracked st)"
  unfolding matchPhase_def matchTracks_def Let_def
  by (subst fold_matchTrack_keys) simp_all

lemma matchPhase_values:
  "(k, v) \<in> set (ms_tracked (matchPhase config fbf now results st)) \<Longrightarrow>
   (k, v) \<in> set (ls_tracked st) \<or>
   (k \<in> ms_matchedIds (matchPhase config fbf now results st) \<and>
    (\<exists>t d. (k, t) \<in> set (ls_tracked st) \<and> v = updateMatched fbf now t d))"
  unfolding matchPhase_def matchTracks_def Let_def
  by (drule fold_matchTrack_values) simp

paragraph \<open>The second loop\<close>

lemma someUnused_iff:
  "someUnused results used \<longleftrightarrow> (\<exists>i<length results. i \<notin> used)"
  by (auto simp add: someUnused_def list_ex_iff)

lemma addUnmatched_upto:
  "fold (\<lambda>i tr. if i \<in> used then tr
                 else AList.update (newId i) (newTrack fbf now (newId i) (results ! i)) tr)
        [0..<Suc n] tracked =
   (let tr = fold (\<lambda>i tr. if i \<in> used then tr
                 else AList.update (newId i) (newTrack fbf now (newId i) (results ! i)) tr)
               [0..<n] tracked
    in if n \<in> used then tr
       else AList.update (newId n) (newTrack fbf now (newId n) (results ! n)) tr)"
  by (simp add: Let_def)

lemma addUnmatched_other_aux:
  "\<forall>i<n. i \<notin> used \<longrightarrow> newId i \<noteq> k \<Longrightarrow>
   map_of (fold (\<lambda>i tr. if i \<in> used then tr
                 else AList.update (newId i) (newTrack fbf now (newId i) (results ! i)) tr)
               [0..<n] tracked) k = map_of tracked k"
proof (induction n)
  case 0
  then show ?case by simp
next
  case (Suc n)
  then show ?case
    by (auto simp add: update_conv' addUnmatched_upto Let_def simp del: upt_Suc)
qed

lemma addUnmatched_other:
  "\<forall>i<length results. i \<notin> used \<longrightarrow> newId i \<noteq> k \<Longrightarrow>
   map_of (addUnmatched fbf now newId results used tracked) k = map_of tracked k"
  unfolding addUnmatched_def by (rule addUnmatched_other_aux)

lemma addUnmatched_new_aux:
  "i < n \<Longrightarrow> i \<notin> used \<Longrightarrow> \<forall>j<n. j \<notin> used \<and> j \<noteq> i \<longrightarrow> newId j \<noteq> newId i \<Longrightarrow>
   map_of (fold (\<lambda>i tr. if i \<in> used then tr
                 else AList.update (newId i) (newTrack fbf now (newId i) (results ! i)) tr)
               [0..<n] tracked) (newId i) = Some (newTrack fbf now (newId i) (results ! i))"
proof (induction n)
  case 0
  then show ?case by simp
next
  case (Suc n)
  show ?case
  proof (cases "i = n")
    case True
    then show ?thesis
      using Suc.prems by (simp add: update_conv' del: upt_Suc add: addUnmatched_upto Let_def)
  next
    case False
    then have "i < n" using Suc.prems by simp
    moreover have "\<forall>j<n. j \<notin> used \<and> j \<noteq> i \<longrightarrow> newId j \<noteq> newId i"
      using Suc.prems by simp
    ultimately have ih: "map_of (fold (\<lambda>i tr. if i \<in> used then tr
                 else AList.update (newId i) (newTrack fbf now (newId i) (results ! i)) tr)
               [0..<n] tracked) (newId i) = Some (newTrack fbf now (newId i) (results ! i))"
      using Suc.IH Suc.prems by simp
    have "n \<notin> used \<longrightarrow> newId n \<noteq> newId i"
      using Suc.prems False by simp
    then show ?thesis
      using ih by (auto simp add: update_conv' addUnmatched_upto Let_def simp del: upt_Suc)
  qed
qed

lemma addUnmatched_new:
  "i < length results \<Longrightarrow> i \<notin> used \<Longrightarrow>
   \<forall>j<length results. j \<notin> used \<and> j \<noteq> i \<longrightarrow> newId j \<noteq> newId i \<Longrightarrow>
   map_of (addUnmatched fbf now newId results used tracked) (newId i)
     = Some (newTrack fbf now (newId i) (results ! i))"
  unfolding addUnmatched_def by (rule addUnmatched_new_aux)

lemma addUnmatched_none_aux:
  "\<forall>i<n. i \<in> used \<Longrightarrow>
   fold (\<lambda>i tr. if i \<in> used then tr
                 else AList.update (newId i) (newTrack fbf now (newId i) (results ! i)) tr)
        [0..<n] tracked = tracked"
proof (induction n)
  case 0
  then show ?case by simp
next
  case (Suc n)
  then show ?case
    by (simp del: upt_Suc add: addUnmatched_upto Let_def)
qed

lemma addUnmatched_none:
  "\<not> someUnused results used \<Longrightarrow> addUnmatched fbf now newId results used tracked = tracked"
  unfolding addUnmatched_def someUnused_iff by (rule addUnmatched_none_aux) simp

lemma addUnmatched_values_aux:
  "(k, v) \<in> set (fold (\<lambda>i tr. if i \<in> used then tr
                 else AList.update (newId i) (newTrack fbf now (newId i) (results ! i)) tr)
               [0..<n] tracked) \<Longrightarrow>
   (k, v) \<in> set tracked \<or> (\<exists>i<n. i \<notin> used \<and> k = newId i \<and> v = newTrack fbf now (newId i) (results ! i))"
proof (induction n arbitrary: k v)
  case 0
  then show ?case by simp
next
  case (Suc n)
  show ?case
  proof (cases "n \<in> used")
    case True
    then have "(k, v) \<in> set (fold (\<lambda>i tr. if i \<in> used then tr
                 else AList.update (newId i) (newTrack fbf now (newId i) (results ! i)) tr)
               [0..<n] tracked)"
      using Suc.prems by (simp del: upt_Suc add: addUnmatched_upto Let_def)
    from Suc.IH [OF this] show ?thesis
      using less_Suc_eq by auto
  next
    case False
    then have "(k, v) \<in> set (AList.update (newId n) (newTrack fbf now (newId n) (results ! n))
        (fold (\<lambda>i tr. if i \<in> used then tr
                 else AList.update (newId i) (newTrack fbf now (newId i) (results ! i)) tr)
               [0..<n] tracked))"
      using Suc.prems by (simp del: upt_Suc add: addUnmatched_upto Let_def)
    from set_update_subset [OF this]
    show ?thesis
    proof
      assume "(k, v) = (newId n, newTrack fbf now (newId n) (results ! n))"
      then show ?thesis using False by auto
    next
      assume "(k, v) \<in> set (fold (\<lambda>i tr. if i \<in> used then tr
                 else AList.update (newId i) (newTrack fbf now (newId i) (results ! i)) tr)
               [0..<n] tracked)"
      from Suc.IH [OF this] show ?thesis
        using less_Suc_eq by auto
    qed
  qed
qed

lemma addUnmatched_values:
  "(k, v) \<in> set (addUnmatched fbf now newId results used tracked) \<Longrightarrow>
   (k, v) \<in> set tracked \<or>
   (\<exists>i<length results. i \<notin> used \<and> k = newId i \<and> v = newTrack fbf now (newId i) (results ! i))"
  unfolding addUnmatched_def by (rule addUnmatched_values_aux)

paragraph \<open>The third loop\<close>

lemma ageTracks_idle: "ageTracks config matched True tracked = tracked"
  by (induction tracked) auto

lemma ageTracks_key_kept:
  "(k, v) \<in> set (ageTracks config matched unused tracked) \<Longrightarrow> \<exists>v0. (k, v0) \<in> set tracked"
  by (induction tracked) (fastforce simp add: Let_def split: if_splits)+

lemma ageTracks_keys_subset:
  "fst ` set (ageTracks config matched unused tracked) \<subseteq> fst ` set tracked"
proof
  fix k assume "k \<in> fst ` set (ageTracks config matched unused tracked)"
  then obtain v where "(k, v) \<in> set (ageTracks config matched unused tracked)"
    by auto
  then obtain v0 where "(k, v0) \<in> set tracked"
    using ageTracks_key_kept by blast
  then show "k \<in> fst ` set tracked"
    by force
qed

lemma ageTracks_unmatched:
  "distinct (map fst tracked) \<Longrightarrow> map_of tracked k = Some t \<Longrightarrow> k \<notin> matched \<Longrightarrow>
   (if tf_missedFrames t + 1 > holdFrames config
    then map_of (ageTracks config matched False tracked) k = None
    else \<exists>t'. map_of (ageTracks config matched False tracked) k = Some t' \<and>
              tf_missedFrames t' = tf_missedFrames t + 1 \<and>
              tf_stableGender t' = tf_stableGender t \<and> tf_genderVotes t' = tf_genderVotes t)"
proof (induction tracked)
  case Nil
  then show ?case by simp
next
  case (Cons e tracked)
  obtain k' t0 where e: "e = (k', t0)"
    by (cases e)
  show ?case
  proof (cases "k' = k")
    case True
    then have t0: "t0 = t"
      using Cons.prems e by simp
    have "k \<notin> fst ` set tracked"
      using Cons.prems True e by simp
    then have "k \<notin> fst ` set (ageTracks config matched False tracked)"
      using ageTracks_keys_subset [of config matched False tracked] by blast
    then have gone: "map_of (ageTracks config matched False tracked) k = None"
      by (simp add: map_of_eq_None_iff)
    show ?thesis
      using True e t0 gone Cons.prems(3) by (simp add: Let_def)
  next
    case False
    then have "map_of tracked k = Some t"
      using Cons.prems e by simp
    moreover have "distinct (map fst tracked)"
      using Cons.prems by simp
    ultimately have ih: "(if tf_missedFrames t + 1 > holdFrames config
      then map_of (ageTracks config matched False tracked) k = None
      else \<exists>t'. map_of (ageTracks config matched False tracked) k = Some t' \<and>
              tf_missedFrames t' = tf_missedFrames t + 1 \<and>
              tf_stableGender t' = tf_stableGender t \<and> tf_genderVotes t' = tf_genderVotes t)"
      using Cons.IH Cons.prems(3) by simp
    show ?thesis
      using False e ih by (simp add: Let_def)
  qed
qed

lemma ageTracks_matched:
  "k \<in> matched \<Longrightarrow> map_of (ageTracks config matched unused tracked) k = map_of tracked k"
  by (induction tracked) (auto simp add: Let_def)

lemma ageTracks_bounded:
  "(k, v) \<in> set (ageTracks config matched unused tracked) \<Longrightarrow>
   (k, v) \<in> set tracked \<or> tf_missedFrames v \<le> holdFrames config"
  by (induction tracked) (auto simp add: Let_def split: if_splits)

lemma updateMatched_missedFrames: "tf_missedFrames (updateMatched fbf now t d) = 0"
  by (simp add: updateMatched_def Let_def split_def)

lemma newTrack_missedFrames: "tf_missedFrames (newTrack fbf now k d) = 0"
  by (simp add: newTrack_def Let_def split_def)

subsection \<open>Votes that keep the stable gender\<close>

lemma getStableGender_keeps:
  "gv_male votes + gv_female votes < 0.9 \<or> \<bar>gv_female votes - gv_male votes\<bar> < 0.25 \<Longrightarrow>
   getStableGender votes previous noOpts = previous"
  by (auto simp add: getStableGender_def noOpts_def orDefault_def Let_def)

lemma updateMatched_stableGender:
  "tf_stableGender (updateMatched fbf now t d) =
     (if tf_isUserCorrected t = Some True then tf_stableGender t
      else getStableGender (tf_genderVotes (updateMatched fbf now t d)) (tf_stableGender t) noOpts)"
  by (simp add: updateMatched_def Let_def split_def)

lemma updateMatched_keeps:
  assumes "gv_male (tf_genderVotes (updateMatched fbf now t d))
             + gv_female (tf_genderVotes (updateMatched fbf now t d)) < 0.9 \<or>
           \<bar>gv_female (tf_genderVotes (updateMatched fbf now t d))
             - gv_male (tf_genderVotes (updateMatched fbf now t d))\<bar> < 0.25"
  shows "tf_stableGender (updateMatched fbf now t d) = tf_stableGender t"
  using assms getStableGender_keeps
  by (simp add: updateMatched_stableGender)

lemma updates_keep:
  "(\<forall>k<length steps.
      gv_male (tf_genderVotes (foldl (\<lambda>t (now, d). updateMatched fbf now t d) t0 (take (Suc k) steps)))
        + gv_female (tf_genderVotes (foldl (\<lambda>t (now, d). updateMatched fbf now t d) t0 (take (Suc k) steps))) < 0.9 \<or>
      \<bar>gv_female (tf_genderVotes (foldl (\<lambda>t (now, d). updateMatched fbf now t d) t0 (take (Suc k) steps)))
        - gv_male (tf_genderVotes (foldl (\<lambda>t (now, d). updateMatched fbf now t d) t0 (take (Suc k) steps)))\<bar> < 0.25) \<Longrightarrow>
   tf_stableGender (foldl (\<lambda>t (now, d). updateMatched fbf now t d) t0 steps) = tf_stableGender t0"
proof (induction steps rule: rev_induct)
  case Nil
  then show ?case by simp
next
  case (snoc step steps)
  let ?upd = "\<lambda>t (now, d). updateMatched fbf now t d"
  obtain now d where step: "step = (now, d)"
    by (cases step)
  have earlier: "tf_stableGender (foldl ?upd t0 steps) = tf_stableGender t0"
  proof (rule snoc.IH, intro allI impI)
    fix k assume k: "k < length steps"
    then have "take (Suc k) (steps @ [step]) = take (Suc k) steps"
      by simp
    moreover have "k < length (steps @ [step])"
      using k by simp
    ultimately show "gv_male (tf_genderVotes (foldl ?upd t0 (take (Suc k) steps)))
        + gv_female (tf_genderVotes (foldl ?upd t0 (take (Suc k) steps))) < 0.9 \<or>
      \<bar>gv_female (tf_genderVotes (foldl ?upd t0 (take (Suc k) steps)))
        - gv_male (tf_genderVotes (foldl ?upd t0 (take (Suc k) steps)))\<bar> < 0.25"
      using snoc.prems by metis
  qed
  have "length steps < length (steps @ [step])"
    by simp
  then have last: "gv_male (tf_genderVotes (foldl ?upd t0 (take (Suc (length steps)) (steps @ [step]))))
        + gv_female (tf_genderVotes (foldl ?upd t0 (take (Suc (length steps)) (steps @ [step])))) < 0.9 \<or>
      \<bar>gv_female (tf_genderVotes (foldl ?upd t0 (take (Suc (length steps)) (steps @ [step]))))
        - gv_male (tf_genderVotes (foldl ?upd t0 (take (Suc (length steps)) (steps @ [step]))))\<bar> < 0.25"
    using snoc.prems by blast
  have unfold: "foldl ?upd t0 (steps @ [step]) = updateMatched fbf now (foldl ?upd t0 steps) d"
    by (simp add: step)
  have full: "take (Suc (length steps)) (steps @ [step]) = steps @ [step]"
    by simp
  have "tf_stableGender (updateMatched fbf now (foldl ?upd t0 steps) d)
          = tf_stableGender (foldl ?upd t0 steps)"
    using last unfolding full unfold by (rule updateMatched_keeps)
  then show ?case
    using earlier unfold by simp
qed

subsection \<open>A track through one cycle\<close>

lemma cycle_unmatched:
  assumes d: "distinct (map fst (ls_tracked st))"
    and fresh: "\<forall>i<length results. newId i \<notin> fst ` set (ls_tracked st)"
    and t: "map_of (ls_tracked st) k = Some t"
    and un: "k \<notin> ms_matchedIds (matchPhase config fbf now results st)"
  shows "if someUnused results (ms_usedDetections (matchPhase config fbf now results st))
         then map_of (ls_tracked (detectionCycle config fbf now newId results st)) k = Some t
         else if tf_missedFrames t + 1 > holdFrames config
         then map_of (ls_tracked (detectionCycle config fbf now newId results st)) k = None
         else \<exists>t'. map_of (ls_tracked (detectionCycle config fbf now newId results st)) k = Some t' \<and>
                   tf_missedFrames t' = tf_missedFrames t + 1 \<and>
                   tf_stableGender t' = tf_stableGender t \<and> tf_genderVotes t' = tf_genderVotes t"
proof -
  let ?ms = "matchPhase config fbf now results st"
  let ?unused = "someUnused results (ms_usedDetections ?ms)"
  let ?tracked2 = "addUnmatched fbf now newId results (ms_usedDetections ?ms) (ms_tracked ?ms)"
  have cycle: "ls_tracked (detectionCycle config fbf now newId results st)
                 = ageTracks config (ms_matchedIds ?ms) ?unused ?tracked2"
    by (simp add: detectionCycle_def Let_def)
  have before: "map_of (ms_tracked ?ms) k = Some t"
    using t un matchPhase_unmatched [of k config fbf now results st] by simp
  show ?thesis
  proof (cases ?unused)
    case True
    have "k \<in> fst ` set (ls_tracked st)"
      using t map_of_eq_None_iff [of "ls_tracked st" k] by auto
    then have "\<forall>i<length results. i \<notin> ms_usedDetections ?ms \<longrightarrow> newId i \<noteq> k"
      using fresh by auto
    then have "map_of ?tracked2 k = Some t"
      using before by (simp add: addUnmatched_other)
    then show ?thesis
      using True by (simp add: cycle ageTracks_idle)
  next
    case False
    have same: "?tracked2 = ms_tracked ?ms"
      using False by (rule addUnmatched_none)
    have dist: "distinct (map fst (ms_tracked ?ms))"
      using d by (simp add: matchPhase_keys)
    have "if tf_missedFrames t + 1 > holdFrames config
          then map_of (ageTracks config (ms_matchedIds ?ms) False (ms_tracked ?ms)) k = None
          else \<exists>t'. map_of (ageTracks config (ms_matchedIds ?ms) False (ms_tracked ?ms)) k = Some t' \<and>
                  tf_missedFrames t' = tf_missedFrames t + 1 \<and>
                  tf_stableGender t' = tf_stableGender t \<and> tf_genderVotes t' = tf_genderVotes t"
      using dist before un by (intro ageTracks_unmatched) simp_all
    then show ?thesis
      using False unfolding cycle same by (auto split: if_splits)
  qed
qed

lemma cycle_matched:
  assumes d: "distinct (map fst (ls_tracked st))"
    and fresh: "\<forall>i<length results. newId i \<notin> fst ` set (ls_tracked st)"
    and t: "map_of (ls_tracked st) k = Some t"
    and m: "k \<in> ms_matchedIds (matchPhase config fbf now results st)"
  shows "map_of (ls_tracked (detectionCycle config fbf now newId results st)) k = Some t \<or>
         (\<exists>detection. map_of (ls_tracked (detectionCycle config fbf now newId results st)) k
            = Some (updateMatched fbf now t detection))"
proof -
  let ?ms = "matchPhase config fbf now results st"
  let ?unused = "someUnused results (ms_usedDetections ?ms)"
  let ?tracked2 = "addUnmatched fbf now newId results (ms_usedDetections ?ms) (ms_tracked ?ms)"
  have cycle: "ls_tracked (detectionCycle config fbf now newId results st)
                 = ageTracks config (ms_matchedIds ?ms) ?unused ?tracked2"
    by (simp add: detectionCycle_def Let_def)
  have key: "k \<in> fst ` set (ls_tracked st)"
    using t map_of_eq_None_iff [of "ls_tracked st" k] by auto
  then have "k \<in> fst ` set (ms_tracked ?ms)"
    using matchPhase_keys [of config fbf now results st] by (metis set_map)
  then obtain v where v: "map_of (ms_tracked ?ms) k = Some v"
    using map_of_eq_None_iff [of "ms_tracked ?ms" k] by auto
  then have "(k, v) \<in> set (ms_tracked ?ms)"
    by (rule map_of_SomeD)
  from matchPhase_values [OF this]
  have shape: "v = t \<or> (\<exists>detection. v = updateMatched fbf now t detection)"
  proof
    assume "(k, v) \<in> set (ls_tracked st)"
    then have "map_of (ls_tracked st) k = Some v"
      using d by simp
    then show ?thesis using t by simp
  next
    assume "k \<in> ms_matchedIds ?ms \<and>
      (\<exists>t0 detection. (k, t0) \<in> set (ls_tracked st) \<and> v = updateMatched fbf now t0 detection)"
    then obtain t0 detection where t0: "(k, t0) \<in> set (ls_tracked st)"
      and upd: "v = updateMatched fbf now t0 detection"
      by blast
    have "map_of (ls_tracked st) k = Some t0"
      using d t0 by simp
    then show ?thesis using t upd by auto
  qed
  have "\<forall>i<length results. i \<notin> ms_usedDetections ?ms \<longrightarrow> newId i \<noteq> k"
    using fresh key by auto
  then have "map_of ?tracked2 k = Some v"
    using v by (simp add: addUnmatched_other)
  then have "map_of (ls_tracked (detectionCycle config fbf now newId results st)) k = Some v"
    using m by (simp add: cycle ageTracks_matched)
  then show ?thesis
    using shape by auto
qed

lemma cycle_stableGender:
  assumes d: "distinct (map fst (ls_tracked st))"
    and fresh: "\<forall>i<length results. newId i \<notin> fst ` set (ls_tracked st)"
    and t: "map_of (ls_tracked st) k = Some t"
    and t': "map_of (ls_tracked (detectionCycle config fbf now newId results st)) k = Some t'"
    and changed: "tf_stableGender t' \<noteq> tf_stableGender t"
  shows "gv_male (tf_genderVotes t') + gv_female (tf_genderVotes t') \<ge> 0.9 \<and>
         \<bar>gv_female (tf_genderVotes t') - gv_male (tf_genderVotes t')\<bar> \<ge> 0.25"
proof (cases "k \<in> ms_matchedIds (matchPhase config fbf now results st)")
  case False
  from cycle_unmatched [OF d fresh t False]
  have "tf_stableGender t' = tf_stableGender t"
    using t' by (auto split: if_splits)
  then show ?thesis
    using changed by simp
next
  case True
  from cycle_matched [OF d fresh t True]
  obtain detection where upd: "t' = updateMatched fbf now t detection"
    using t' changed by auto
  have "\<not> (gv_male (tf_genderVotes (updateMatched fbf now t detection))
             + gv_female (tf_genderVotes (updateMatched fbf now t detection)) < 0.9 \<or>
           \<bar>gv_female (tf_genderVotes (updateMatched fbf now t detection))
             - gv_male (tf_genderVotes (updateMatched fbf now t detection))\<bar> < 0.25)"
  proof
    assume "gv_male (tf_genderVotes (updateMatched fbf now t detection))
             + gv_female (tf_genderVotes (updateMatched fbf now t detection)) < 0.9 \<or>
           \<bar>gv_female (tf_genderVotes (updateMatched fbf now t detection))
             - gv_male (tf_genderVotes (updateMatched fbf now t detection))\<bar> < 0.25"
    then have "tf_stableGender (updateMatched fbf now t detection) = tf_stableGender t"
      by (rule updateMatched_keeps)
    then show False
      using changed upd by simp
  qed
  then show ?thesis
    unfolding upd by simp
qed

lemma cycle_bounded:
  assumes hold: "0 \<le> holdFrames config"
    and inv: "\<forall>(k, t) \<in> set (ls_tracked st). tf_missedFrames t \<le> holdFrames config"
  shows "\<forall>(k, t) \<in> set (ls_tracked (detectionCycle config fbf now newId results st)).
           tf_missedFrames t \<le> holdFrames config"
proof (clarify)
  let ?ms = "matchPhase config fbf now results st"
  let ?unused = "someUnused results (ms_usedDetections ?ms)"
  let ?tracked2 = "addUnmatched fbf now newId results (ms_usedDetections ?ms) (ms_tracked ?ms)"
  have cycle: "ls_tracked (detectionCycle config fbf now newId results st)
                 = ageTracks config (ms_matchedIds ?ms) ?unused ?tracked2"
    by (simp add: detectionCycle_def Let_def)
  fix k v
  assume "(k, v) \<in> set (ls_tracked (detectionCycle config fbf now newId results st))"
  then have "(k, v) \<in> set ?tracked2 \<or> tf_missedFrames v \<le> holdFrames config"
    unfolding cycle by (rule ageTracks_bounded)
  moreover have "tf_missedFrames v \<le> holdFrames config" if "(k, v) \<in> set ?tracked2"
  proof -
    from addUnmatched_values [OF that]
    show ?thesis
    proof
      assume "(k, v) \<in> set (ms_tracked ?ms)"
      from matchPhase_values [OF this]
      show ?thesis
        using hold inv by (auto simp add: updateMatched_missedFrames)
    next
      assume "\<exists>i<length results. i \<notin> ms_usedDetections ?ms \<and> k = newId i \<and>
                v = newTrack fbf now (newId i) (results ! i)"
      then show ?thesis
        using hold by (auto simp add: newTrack_missedFrames)
    qed
  qed
  ultimately show "tf_missedFrames v \<le> holdFrames config"
    by blast
qed

subsection \<open>Example cycles\<close>

lemma sqrt_million: "sqrt 1000000 = 1000"
  by (rule real_sqrt_unique) simp_all

lemma trackA_fields:
  "tf_boundingBox trackA = boxAt 0 0" "tf_velocity trackA = \<lparr>vx = 0, vy = 0\<rparr>"
  "tf_missedFrames trackA = 0"
  by (simp_all add: trackA_def newTrack_def Let_def split_def detectionAt_def)

lemma far_detection_unmatched:
  "tf_boundingBox t = boxAt 0 0 \<Longrightarrow> tf_velocity t = \<lparr>vx = 0, vy = 0\<rparr> \<Longrightarrow>
   findBestMatch DEFAULT_WEBCAM_CONFIG t [detectionAt g c 600 800] {} = None"
  by (simp add: findBestMatch_def matchCandidate_def Let_def detectionAt_def
      boxAt_def calculateCenterDistance_def calculateIoU_def DEFAULT_WEBCAM_CONFIG_def sqrt_million)

lemma far_detection_matchPhase:
  "tf_boundingBox t = boxAt 0 0 \<Longrightarrow> tf_velocity t = \<lparr>vx = 0, vy = 0\<rparr> \<Longrightarrow>
   matchPhase DEFAULT_WEBCAM_CONFIG fbf now [detectionAt g c 600 800]
     \<lparr>ls_tracked = [(k, t)], ls_session = None\<rparr>
   = \<lparr>ms_tracked = [(k, t)], ms_session = None, ms_matchedIds = {},
      ms_usedDetections = {}\<rparr>"
  by (simp add: matchPhase_def matchTracks_def matchTrack_def far_detection_unmatched)

lemma no_detection_matchPhase:
  "matchPhase config fbf now [] st
   = \<lparr>ms_tracked = ls_tracked st,
      ms_session = (case ls_session st of None \<Rightarrow> None
                    | Some session \<Rightarrow> Some (session\<lparr>cs_frameCount := cs_frameCount session + 1\<rparr>)),
      ms_matchedIds = {}, ms_usedDetections = {}\<rparr>"
proof -
  have step: "matchTrack config fbf now [] e ms = ms" for e ms
    by (simp add: matchTrack_def findBestMatch_def)
  have "fold (matchTrack config fbf now []) es ms = ms" for es ms
    by (induction es) (simp_all add: step)
  then show ?thesis
    by (simp add: matchPhase_def matchTracks_def)
qed

subsection \<open>Missed frames\<close>

text \<open>
  C3.  A track that no detection of the cycle matches is to have its \<open>missedFrames\<close>
  incremented by one, and to be deleted once the count exceeds \<open>holdFrames\<close>.  The third
  loop does so only in a cycle that leaves no detection unmatched.  With one detection
  1000 pixels away, which matches no track and becomes a new one, the unmatched track
  \<open>face_a\<close> keeps its \<open>missedFrames\<close> of \<open>0\<close>, and at the hold budget (\<open>3\<close> of \<open>3\<close>) it
  stays in the table with \<open>3\<close>; in a cycle without detections the same tracks are aged
  to \<open>1\<close> and deleted.
\<close>

theorem unmatched_track_not_aged:
  "''face_a'' \<notin> ms_matchedIds (matchPhase DEFAULT_WEBCAM_CONFIG 0.15 1 [detectionAt Male 0.9 600 800]
      \<lparr>ls_tracked = [(''face_a'', trackA)], ls_session = None\<rparr>) \<and>
   tf_missedFrames trackA = 0 \<and>
   map_option tf_missedFrames
     (map_of (ls_tracked (detectionCycle DEFAULT_WEBCAM_CONFIG 0.15 1 (\<lambda>i. ''face_b'')
        [detectionAt Male 0.9 600 800]
        \<lparr>ls_tracked = [(''face_a'', trackA)], ls_session = None\<rparr>)) ''face_a'')
     = Some 0 \<and>
   holdFrames DEFAULT_WEBCAM_CONFIG = 3 \<and>
   ''face_a'' \<notin> ms_matchedIds (matchPhase DEFAULT_WEBCAM_CONFIG 0.15 1 [detectionAt Male 0.9 600 800]
      \<lparr>ls_tracked = [(''face_a'', trackA\<lparr>tf_missedFrames := 3\<rparr>)], ls_session = None\<rparr>) \<and>
   map_option tf_missedFrames
     (map_of (ls_tracked (detectionCycle DEFAULT_WEBCAM_CONFIG 0.15 1 (\<lambda>i. ''face_b'')
        [detectionAt Male 0.9 600 800]
        \<lparr>ls_tracked = [(''face_a'', trackA\<lparr>tf_missedFrames := 3\<rparr>)], ls_session = None\<rparr>))
        ''face_a'')
     = Some 3 \<and>
   map_option tf_missedFrames
     (map_of (ls_tracked (detectionCycle DEFAULT_WEBCAM_CONFIG 0.15 1 (\<lambda>i. ''face_b'') []
        \<lparr>ls_tracked = [(''face_a'', trackA)], ls_session = None\<rparr>)) ''face_a'')
     = Some 1 \<and>
   map_of (ls_tracked (detectionCycle DEFAULT_WEBCAM_CONFIG 0.15 1 (\<lambda>i. ''face_b'') []
        \<lparr>ls_tracked = [(''face_a'', trackA\<lparr>tf_missedFrames := 3\<rparr>)], ls_session = None\<rparr>))
     ''face_a'' = None"
proof -
  have hold: "holdFrames DEFAULT_WEBCAM_CONFIG = 3"
    by (simp add: DEFAULT_WEBCAM_CONFIG_def)
  have far: "detectionCycle DEFAULT_WEBCAM_CONFIG fbf now (\<lambda>i. ''face_b'') [detectionAt g c 600 800]
        \<lparr>ls_tracked = [(''face_a'', t)], ls_session = None\<rparr>
      = \<lparr>ls_tracked = [(''face_a'', t),
            (''face_b'', newTrack fbf now ''face_b'' (detectionAt g c 600 800))],
          ls_session = None\<rparr>"
    if "tf_boundingBox t = boxAt 0 0" "tf_velocity t = \<lparr>vx = 0, vy = 0\<rparr>" for fbf now g c t
    using that
    by (simp add: detectionCycle_def Let_def far_detection_matchPhase addUnmatched_def
        someUnused_def)
  have none: "ls_tracked (detectionCycle DEFAULT_WEBCAM_CONFIG fbf now (\<lambda>i. ''face_b'') []
        \<lparr>ls_tracked = [(''face_a'', t)], ls_session = None\<rparr>)
      = ageTracks DEFAULT_WEBCAM_CONFIG {} False [(''face_a'', t)]" for fbf now t
    by (simp add: detectionCycle_def Let_def no_detection_matchPhase addUnmatched_def
        someUnused_def)
  have aged: "map_option tf_missedFrames
       (map_of (ageTracks DEFAULT_WEBCAM_CONFIG {} False [(''face_a'', trackA)]) ''face_a'') = Some 1"
    by (simp add: Let_def hold trackA_fields)
  have deleted: "map_of (ageTracks DEFAULT_WEBCAM_CONFIG {} False
       [(''face_a'', trackA\<lparr>tf_missedFrames := 3\<rparr>)]) ''face_a'' = None"
    by (simp add: Let_def hold)
  show ?thesis
    by (simp add: far far_detection_matchPhase none aged deleted trackA_fields hold)
qed

subsection \<open>New tracks\<close>

text \<open>
  C8, as stated, fails: a male detection of confidence \<open>0.6\<close> and face score \<open>0.9\<close> that
  matches no track becomes a track whose votes are all zero, not the weight \<open>0.54\<close>.
\<close>

theorem low_confidence_seed_counterexample:
  "dr_confidence (detectionAt Male 0.6 0 0) * dr_faceScore (detectionAt Male 0.6 0 0) = 0.54 \<and>
   0 \<notin> ms_usedDetections (matchPhase DEFAULT_WEBCAM_CONFIG 0.15 1 [detectionAt Male 0.6 0 0]
      \<lparr>ls_tracked = [], ls_session = None\<rparr>) \<and>
   map_option tf_genderVotes
     (map_of (ls_tracked (detectionCycle DEFAULT_WEBCAM_CONFIG 0.15 1 (\<lambda>i. ''face_b'')
        [detectionAt Male 0.6 0 0] \<lparr>ls_tracked = [], ls_session = None\<rparr>)) ''face_b'')
     = Some \<lparr>gv_male = 0, gv_female = 0\<rparr> \<and>
   map_option tf_ageVotes
     (map_of (ls_tracked (detectionCycle DEFAULT_WEBCAM_CONFIG 0.15 1 (\<lambda>i. ''face_b'')
        [detectionAt Male 0.6 0 0] \<lparr>ls_tracked = [], ls_session = None\<rparr>)) ''face_b'')
     = Some \<lparr>av_kid = 0, av_young = 0, av_adult = 0\<rparr>"
  by (simp add: detectionCycle_def Let_def matchPhase_def matchTracks_def addUnmatched_def
      someUnused_def newTrack_def detectionAt_def MIN_VOTE_CONFIDENCE_def)

text \<open>
  C8, amended.  Every detection that matches no existing track becomes a track with one
  hit, no missed frame and the detection's gender and age as labels and stable labels.
  When the detection's confidence is at least \<open>0.65\<close>, its age group gets the vote
  \<open>confidence * min(faceScore, 1)\<close> and its gender gets the same vote, a female vote
  multiplied by \<open>1 + femaleBoostFactor * max(0, 1 - 2 * (confidence - 0.5))\<close>; below
  \<open>0.65\<close> all initial votes are zero.  The identifiers drawn in the cycle are distinct.
\<close>

theorem unmatched_detection_spawns_track:
  assumes i: "i < length results"
    and unused: "i \<notin> ms_usedDetections (matchPhase config fbf now results st)"
    and ids: "\<forall>j<length results. j \<noteq> i \<longrightarrow> newId j \<noteq> newId i"
  shows "\<exists>t. map_of (ls_tracked (detectionCycle config fbf now newId results st)) (newId i) = Some t \<and>
           tf_consecutiveHits t = 1 \<and> tf_missedFrames t = 0 \<and>
           tf_gender t = dr_gender (results ! i) \<and>
           tf_ageGroup t = dr_ageGroup (results ! i) \<and>
           tf_stableGender t = dr_gender (results ! i) \<and>
           tf_stableAgeGroup t = dr_ageGroup (results ! i) \<and>
           tf_genderVotes t =
             (if dr_confidence (results ! i) \<ge> 0.65
              then if dr_gender (results ! i) = Male
                   then \<lparr>gv_male = dr_confidence (results ! i) * min (dr_faceScore (results ! i)) 1,
                         gv_female = 0\<rparr>
                   else \<lparr>gv_male = 0,
                         gv_female = dr_confidence (results ! i) * min (dr_faceScore (results ! i)) 1
                           * (1 + fbf * max 0 (1 - (dr_confidence (results ! i) - 0.5) * 2))\<rparr>
              else \<lparr>gv_male = 0, gv_female = 0\<rparr>) \<and>
           tf_ageVotes t =
             (if dr_confidence (results ! i) \<ge> 0.65
              then setAgeVote (dr_ageGroup (results ! i))
                     (dr_confidence (results ! i) * min (dr_faceScore (results ! i)) 1)
                     \<lparr>av_kid = 0, av_young = 0, av_adult = 0\<rparr>
              else \<lparr>av_kid = 0, av_young = 0, av_adult = 0\<rparr>)"
proof -
  let ?ms = "matchPhase config fbf now results st"
  let ?tracked2 = "addUnmatched fbf now newId results (ms_usedDetections ?ms) (ms_tracked ?ms)"
  let ?t = "newTrack fbf now (newId i) (results ! i)"
  have some: "someUnused results (ms_usedDetections ?ms)"
    using i unused by (auto simp add: someUnused_iff)
  have "ls_tracked (detectionCycle config fbf now newId results st) = ?tracked2"
    using some by (simp add: detectionCycle_def Let_def ageTracks_idle)
  moreover have "map_of ?tracked2 (newId i) = Some ?t"
    using i unused ids by (intro addUnmatched_new) simp_all
  ultimately have "map_of (ls_tracked (detectionCycle config fbf now newId results st)) (newId i) = Some ?t"
    by simp
  moreover have "tf_consecutiveHits ?t = 1" "tf_missedFrames ?t = 0"
    "tf_gender ?t = dr_gender (results ! i)" "tf_ageGroup ?t = dr_ageGroup (results ! i)"
    "tf_stableGender ?t = dr_gender (results ! i)" "tf_stableAgeGroup ?t = dr_ageGroup (results ! i)"
    by (simp_all add: newTrack_def Let_def split_def)
  moreover have "tf_genderVotes ?t =
             (if dr_confidence (results ! i) \<ge> 0.65
              then if dr_gender (results ! i) = Male
                   then \<lparr>gv_male = dr_confidence (results ! i) * min (dr_faceScore (results ! i)) 1,
                         gv_female = 0\<rparr>
                   else \<lparr>gv_male = 0,
                         gv_female = dr_confidence (results ! i) * min (dr_faceScore (results ! i)) 1
                           * (1 + fbf * max 0 (1 - (dr_confidence (results ! i) - 0.5) * 2))\<rparr>
              else \<lparr>gv_male = 0, gv_female = 0\<rparr>)"
    by (simp add: newTrack_def Let_def split_def MIN_VOTE_CONFIDENCE_def)
  moreover have "tf_ageVotes ?t =
             (if dr_confidence (results ! i) \<ge> 0.65
              then setAgeVote (dr_ageGroup (results ! i))
                     (dr_confidence (results ! i) * min (dr_faceScore (results ! i)) 1)
                     \<lparr>av_kid = 0, av_young = 0, av_adult = 0\<rparr>
              else \<lparr>av_kid = 0, av_young = 0, av_adult = 0\<rparr>)"
    by (simp add: newTrack_def Let_def split_def MIN_VOTE_CONFIDENCE_def)
  ultimately show ?thesis
    by blast
qed

theorem unmatched_detection_spawns_track_witness:
  "\<exists>t. map_of (ls_tracked (detectionCycle DEFAULT_WEBCAM_CONFIG 0.15 1
            (\<lambda>i. if i = 0 then ''face_b'' else ''face_c'')
            [detectionAt Female 0.7 0 0, detectionAt Male 0.9 600 800]
            \<lparr>ls_tracked = [], ls_session = None\<rparr>)) ''face_b'' = Some t \<and>
       tf_consecutiveHits t = 1 \<and>
       tf_genderVotes t = \<lparr>gv_male = 0, gv_female = 0.6867\<rparr> \<and>
       tf_ageVotes t = \<lparr>av_kid = 0, av_young = 0.63, av_adult = 0\<rparr>"
proof -
  have used: "ms_usedDetections (matchPhase config fbf now results
            \<lparr>ls_tracked = [], ls_session = None\<rparr>) = {}" for config fbf now results
    by (simp add: matchPhase_def matchTracks_def)
  show ?thesis
    using unmatched_detection_spawns_track [of 0
        "[detectionAt Female 0.7 0 0, detectionAt Male 0.9 600 800]"
        DEFAULT_WEBCAM_CONFIG "0.15" 1 "\<lparr>ls_tracked = [], ls_session = None\<rparr>"
        "\<lambda>i. if i = 0 then ''face_b'' else ''face_c''"]
    by (auto simp add: used detectionAt_def setAgeVote_def)
qed

subsection \<open>Hysteresis of the stable gender\<close>

text \<open>
  C4.  The stable gender changes only when the gender votes total at least \<open>0.9\<close> and
  differ by at least \<open>0.25\<close>; otherwise the previous value is returned.  This holds for
  \<open>getStableGender\<close>, for the update of a matched track, for any sequence of such updates
  whose votes stay below one of the two bounds, and for a track through a whole cycle.
\<close>

theorem stableGender_hysteresis:
  "(getStableGender votes previous noOpts \<noteq> previous \<longrightarrow>
      gv_male votes + gv_female votes \<ge> 0.9 \<and> \<bar>gv_female votes - gv_male votes\<bar> \<ge> 0.25) \<and>
   (gv_male votes + gv_female votes < 0.9 \<or> \<bar>gv_female votes - gv_male votes\<bar> < 0.25 \<longrightarrow>
      getStableGender votes previous noOpts = previous) \<and>
   (tf_stableGender (updateMatched fbf now t d) \<noteq> tf_stableGender t \<longrightarrow>
      gv_male (tf_genderVotes (updateMatched fbf now t d))
        + gv_female (tf_genderVotes (updateMatched fbf now t d)) \<ge> 0.9 \<and>
      \<bar>gv_female (tf_genderVotes (updateMatched fbf now t d))
        - gv_male (tf_genderVotes (updateMatched fbf now t d))\<bar> \<ge> 0.25) \<and>
   ((\<forall>k<length steps.
      gv_male (tf_genderVotes (foldl (\<lambda>t (now, d). updateMatched fbf now t d) t (take (Suc k) steps)))
        + gv_female (tf_genderVotes (foldl (\<lambda>t (now, d). updateMatched fbf now t d) t (take (Suc k) steps))) < 0.9 \<or>
      \<bar>gv_female (tf_genderVotes (foldl (\<lambda>t (now, d). updateMatched fbf now t d) t (take (Suc k) steps)))
        - gv_male (tf_genderVotes (foldl (\<lambda>t (now, d). updateMatched fbf now t d) t (take (Suc k) steps)))\<bar> < 0.25) \<longrightarrow>
    tf_stableGender (foldl (\<lambda>t (now, d). updateMatched fbf now t d) t steps) = tf_stableGender t) \<and>
   (distinct (map fst (ls_tracked st)) \<and>
    (\<forall>i<length results. newId i \<notin> fst ` set (ls_tracked st)) \<and>
    map_of (ls_tracked st) key = Some before \<and>
    map_of (ls_tracked (detectionCycle config fbf now newId results st)) key = Some after \<and>
    tf_stableGender after \<noteq> tf_stableGender before \<longrightarrow>
      gv_male (tf_genderVotes after) + gv_female (tf_genderVotes after) \<ge> 0.9 \<and>
      \<bar>gv_female (tf_genderVotes after) - gv_male (tf_genderVotes after)\<bar> \<ge> 0.25)"
proof (intro conjI impI)
  assume "getStableGender votes previous noOpts \<noteq> previous"
  then have "\<not> (gv_male votes + gv_female votes < 0.9 \<or> \<bar>gv_female votes - gv_male votes\<bar> < 0.25)"
    using getStableGender_keeps [of votes previous] by blast
  then show "gv_male votes + gv_female votes \<ge> 0.9" and "\<bar>gv_female votes - gv_male votes\<bar> \<ge> 0.25"
    by simp_all
next
  assume "gv_male votes + gv_female votes < 0.9 \<or> \<bar>gv_female votes - gv_male votes\<bar> < 0.25"
  then show "getStableGender votes previous noOpts = previous"
    by (rule getStableGender_keeps)
next
  assume "tf_stableGender (updateMatched fbf now t d) \<noteq> tf_stableGender t"
  then have "\<not> (gv_male (tf_genderVotes (updateMatched fbf now t d))
             + gv_female (tf_genderVotes (updateMatched fbf now t d)) < 0.9 \<or>
           \<bar>gv_female (tf_genderVotes (updateMatched fbf now t d))
             - gv_male (tf_genderVotes (updateMatched fbf now t d))\<bar> < 0.25)"
    using updateMatched_keeps [of fbf now t d] by blast
  then show "gv_male (tf_genderVotes (updateMatched fbf now t d))
        + gv_female (tf_genderVotes (updateMatched fbf now t d)) \<ge> 0.9"
    and "\<bar>gv_female (tf_genderVotes (updateMatched fbf now t d))
        - gv_male (tf_genderVotes (updateMatched fbf now t d))\<bar> \<ge> 0.25"
    by simp_all
next
  assume "\<forall>k<length steps.
      gv_male (tf_genderVotes (foldl (\<lambda>t (now, d). updateMatched fbf now t d) t (take (Suc k) steps)))
        + gv_female (tf_genderVotes (foldl (\<lambda>t (now, d). updateMatched fbf now t d) t (take (Suc k) steps))) < 0.9 \<or>
      \<bar>gv_female (tf_genderVotes (foldl (\<lambda>t (now, d). updateMatched fbf now t d) t (take (Suc k) steps)))
        - gv_male (tf_genderVotes (foldl (\<lambda>t (now, d). updateMatched fbf now t d) t (take (Suc k) steps)))\<bar> < 0.25"
  then show "tf_stableGender (foldl (\<lambda>t (now, d). updateMatched fbf now t d) t steps) = tf_stableGender t"
    by (rule updates_keep)
next
  assume a: "distinct (map fst (ls_tracked st)) \<and>
    (\<forall>i<length results. newId i \<notin> fst ` set (ls_tracked st)) \<and>
    map_of (ls_tracked st) key = Some before \<and>
    map_of (ls_tracked (detectionCycle config fbf now newId results st)) key = Some after \<and>
    tf_stableGender after \<noteq> tf_stableGender before"
  then have "gv_male (tf_genderVotes after) + gv_female (tf_genderVotes after) \<ge> 0.9 \<and>
      \<bar>gv_female (tf_genderVotes after) - gv_male (tf_genderVotes after)\<bar> \<ge> 0.25"
    by (intro cycle_stableGender [of st results newId key before config fbf now after]) simp_all
  then show "gv_male (tf_genderVotes after) + gv_female (tf_genderVotes after) \<ge> 0.9"
    and "\<bar>gv_female (tf_genderVotes after) - gv_male (tf_genderVotes after)\<bar> \<ge> 0.25"
    by simp_all
qed

theorem stableGender_hysteresis_witness:
  "getStableGender \<lparr>gv_male = 0.5, gv_female = 0.6\<rparr> Male noOpts = Male \<and>
   tf_stableGender trackA = Male \<and>
   tf_stableGender
     (foldl (\<lambda>t (now, d). updateMatched 0.15 now t d) trackA [(1, detectionAt Female 0.7 0 0)])
     = Male"
proof -
  have votes: "tf_genderVotes (updateMatched fbf now trackA (detectionAt Female 0.7 x y))
                 = \<lparr>gv_male = 0.81, gv_female = 0.63 * (1 + fbf * 0.6)\<rparr>" for fbf now x y
    by (simp add: updateMatched_def Let_def split_def trackA_def newTrack_def detectionAt_def
        MIN_VOTE_CONFIDENCE_def)
  have "getStableGender \<lparr>gv_male = 0.5, gv_female = 0.6\<rparr> Male noOpts = Male"
    using stableGender_hysteresis
      [where votes = "\<lparr>gv_male = 0.5, gv_female = 0.6\<rparr>" and previous = Male,
       THEN conjunct2, THEN conjunct1]
    by simp
  moreover have "tf_stableGender
     (foldl (\<lambda>t (now, d). updateMatched 0.15 now t d) trackA [(1, detectionAt Female 0.7 0 0)])
     = tf_stableGender trackA"
    using stableGender_hysteresis
      [where fbf = "0.15" and t = trackA and steps = "[(1, detectionAt Female 0.7 0 0)]",
       THEN conjunct2, THEN conjunct2, THEN conjunct2, THEN conjunct1]
    by (simp add: votes)
  moreover have "tf_stableGender trackA = Male"
    by (simp add: trackA_def newTrack_def Let_def split_def detectionAt_def)
  ultimately show ?thesis
    by simp
qed

section \<open>Properties of the orchestration under detector failure\<close>

lemma failuresAsEmpty_canvas:
  "createProcessedCanvas (failuresAsEmpty gw) = createProcessedCanvas gw"
  by (simp add: failuresAsEmpty_def)

lemma orEmpty_tiny_failuresAsEmpty:
  "orEmpty (runTinyDetection (failuresAsEmpty gw) input inputSize threshold)
     = orEmpty (runTinyDetection gw input inputSize threshold)"
  by (simp add: orEmpty_def runTinyDetection_def failuresAsEmpty_def split: sum.splits)

lemma orEmpty_ssd_failuresAsEmpty:
  "orEmpty (runSsdDetection loaded (failuresAsEmpty gw) input threshold)
     = orEmpty (runSsdDetection loaded gw input threshold)"
  by (simp add: orEmpty_def runSsdDetection_def failuresAsEmpty_def split: sum.splits)

lemma pushIfAny_ssd_failuresAsEmpty:
  "pushIfAny perScale (runSsdDetection loaded (failuresAsEmpty gw) input threshold)
     = pushIfAny perScale (runSsdDetection loaded gw input threshold)"
  by (simp add: pushIfAny_def runSsdDetection_def failuresAsEmpty_def split: sum.splits)

lemma allPass1Detections_failuresAsEmpty:
  "allPass1Detections ctx config (failuresAsEmpty gw) = allPass1Detections ctx config gw"
  unfolding allPass1Detections_def Let_def
  by (simp only: orEmpty_tiny_failuresAsEmpty orEmpty_ssd_failuresAsEmpty
      pushIfAny_ssd_failuresAsEmpty if_distrib [of orEmpty] cong: if_cong)

lemma pass2Detections_failuresAsEmpty:
  "pass2Detections ctx config (failuresAsEmpty gw) canvas = pass2Detections ctx config gw canvas"
  unfolding pass2Detections_def Let_def
  by (simp only: orEmpty_tiny_failuresAsEmpty pushIfAny_ssd_failuresAsEmpty)

lemma mergedPass1_failuresAsEmpty:
  "mergedPass1 ctx config (failuresAsEmpty gw) = mergedPass1 ctx config gw"
  by (simp add: mergedPass1_def allPass1Detections_failuresAsEmpty)

lemma pass2_failuresAsEmpty:
  "pass2 ctx config (failuresAsEmpty gw) detections = pass2 ctx config gw detections"
  by (simp add: pass2_def pass2Detections_failuresAsEmpty failuresAsEmpty_canvas
      split: option.splits)

lemma pass3_abandoned:
  assumes "createProcessedCanvas gw (videoElement ctx)
             \<lparr>pp_gamma = 1.8, pp_contrast = 2.0, pp_sharpen = 0.6, pp_denoise = True\<rparr> 2.5 None
           = Some canvas"
    and "tinyFaceDetector gw canvas 608 0.08 = Inl e \<or>
         (ssdLoaded ctx \<and> ssdMobilenet gw canvas 0.08 = Inl e)"
  shows "pass3 ctx config gw detections = detections"
  using assms
  by (auto simp add: pass3_def runTinyDetection_def runSsdDetection_def split: sum.splits)

lemma pass3_failuresAsEmpty:
  assumes "\<forall>canvas. createProcessedCanvas gw (videoElement ctx)
             \<lparr>pp_gamma = 1.8, pp_contrast = 2.0, pp_sharpen = 0.6, pp_denoise = True\<rparr> 2.5 None
           = Some canvas \<longrightarrow>
           (\<exists>r. tinyFaceDetector gw canvas 608 0.08 = Inr r) \<and>
           (\<exists>r. ssdMobilenet gw canvas 0.08 = Inr r)"
  shows "pass3 ctx config (failuresAsEmpty gw) detections = pass3 ctx config gw detections"
proof (cases "createProcessedCanvas gw (videoElement ctx)
             \<lparr>pp_gamma = 1.8, pp_contrast = 2.0, pp_sharpen = 0.6, pp_denoise = True\<rparr> 2.5 None")
  case None
  then show ?thesis
    by (simp add: pass3_def failuresAsEmpty_canvas)
next
  case (Some canvas)
  then obtain r1 r2 where "tinyFaceDetector gw canvas 608 0.08 = Inr r1"
    and "ssdMobilenet gw canvas 0.08 = Inr r2"
    using assms by blast
  then have calls:
    "runTinyDetection (failuresAsEmpty gw) canvas 608 0.08 = runTinyDetection gw canvas 608 0.08"
    "runSsdDetection (ssdLoaded ctx) (failuresAsEmpty gw) canvas 0.08
       = runSsdDetection (ssdLoaded ctx) gw canvas 0.08"
    by (simp_all add: runTinyDetection_def runSsdDetection_def failuresAsEmpty_def)
  show ?thesis
    unfolding pass3_def failuresAsEmpty_canvas Some option.case calls
    by (rule refl)
qed

subsection \<open>Example cycles of the orchestration\<close>

lemma merge_same:
  "i \<le> 1 \<Longrightarrow>
   mergeDetections [candidateAt s 0 0, candidateAt s 0 0, candidateAt s 0 0] w h i c
     = [candidateAt s 0 0]"
  "i \<le> 1 \<Longrightarrow>
   mergeDetections [candidateAt s 0 0, candidateAt s 0 0] w h i c = [candidateAt s 0 0]"
  "mergeDetections [candidateAt s x y] w h i c = [candidateAt s x y]"
  "0 < i \<Longrightarrow> 0 < c \<Longrightarrow>
   mergeDetections [candidateAt s 0 0, candidateAt s 300 0] w h i c
     = [candidateAt s 0 0, candidateAt s 300 0]"
  by (simp_all add: mergeDetections_def candidateAt_def getScore_def getBox_def overlaps_def
      boxAt_def Let_def)

lemma thresholds_rescueConfig:
  "pass1Threshold rescueConfig = 0.1" "rescueThreshold rescueConfig = 0.12"
  by (simp_all add: pass1Threshold_def rescueThreshold_def detectionThreshold_def rescueConfig_def
      DEFAULT_CCTV_CONFIG_def)

lemma config_fields:
  "detector rescueConfig = Dual" "enableEnhancedRescue rescueConfig = Some True"
  "upscale rescueConfig = 2" "roi_enabled (roi rescueConfig) = False"
  by (simp_all add: rescueConfig_def DEFAULT_CCTV_CONFIG_def)

lemma frame_fields:
  "videoElement cctvFrame = 0" "isCCTV cctvFrame = True" "ssdLoaded cctvFrame = True"
  "videoWidth cctvFrame = 640" "videoHeight cctvFrame = 480"
  by (simp_all add: cctvFrame_def)

lemma strong_example:
  "0.2 \<le> s \<Longrightarrow> strongCandidate rescueConfig 640 480 (candidateAt s 300 0)"
  by (simp add: strongCandidate_def candidateAt_def boxAt_def rescueConfig_def
      DEFAULT_CCTV_CONFIG_def orDefault_def Let_def)

text \<open>Pass 1 and Pass 2 on the two example gateways and on their silenced versions.\<close>

lemma pass1_examples:
  "allPass1Detections cctvFrame rescueConfig flakyGateway
     = [[candidateAt 0.9 0 0], [], [candidateAt 0.9 0 0], [candidateAt 0.9 0 0]]"
  "allPass1Detections cctvFrame rescueConfig (failuresAsEmpty flakyGateway)
     = [[candidateAt 0.9 0 0], [], [candidateAt 0.9 0 0], [candidateAt 0.9 0 0]]"
  "allPass1Detections cctvFrame rescueConfig (failuresAsEmpty flakyTinyGateway)
     = [[candidateAt 0.9 0 0], [], [candidateAt 0.9 0 0], [candidateAt 0.9 0 0]]"
  by (simp_all add: allPass1Detections_def Let_def failuresAsEmpty_def flakyGateway_def
      flakyTinyGateway_def lowThresholdTiny_def frame_fields config_fields
      thresholds_rescueConfig pass1Scales_def orEmpty_def runTinyDetection_def
      runSsdDetection_def pushIfAny_def)

lemma mergedPass1_examples:
  "mergedPass1 cctvFrame rescueConfig flakyGateway = [candidateAt 0.9 0 0]"
  "mergedPass1 cctvFrame rescueConfig (failuresAsEmpty flakyGateway) = [candidateAt 0.9 0 0]"
  "mergedPass1 cctvFrame rescueConfig (failuresAsEmpty flakyTinyGateway) = [candidateAt 0.9 0 0]"
  by (simp_all add: mergedPass1_def pass1_examples merge_same)

lemma pass2Detections_examples:
  "pass2Detections cctvFrame rescueConfig flakyGateway (Suc 0)
     = [[candidateAt 0.9 0 0], [], [candidateAt 0.9 0 0], [candidateAt 0.9 0 0]]"
  "pass2Detections cctvFrame rescueConfig (failuresAsEmpty flakyGateway) (Suc 0)
     = [[candidateAt 0.9 0 0], [], [candidateAt 0.9 0 0], [candidateAt 0.9 0 0]]"
  "pass2Detections cctvFrame rescueConfig (failuresAsEmpty flakyTinyGateway) (Suc 0)
     = [[candidateAt 0.9 0 0], [], [candidateAt 0.9 0 0], [candidateAt 0.9 0 0]]"
  by (simp_all add: pass2Detections_def Let_def failuresAsEmpty_def flakyGateway_def
      flakyTinyGateway_def lowThresholdTiny_def frame_fields config_fields
      thresholds_rescueConfig pass2Scales_def orEmpty_def runTinyDetection_def
      runSsdDetection_def pushIfAny_def)

lemma pass2_examples:
  "pass2 cctvFrame rescueConfig flakyGateway [candidateAt 0.9 0 0] = [candidateAt 0.9 0 0]"
  "pass2 cctvFrame rescueConfig (failuresAsEmpty flakyGateway) [candidateAt 0.9 0 0]
     = [candidateAt 0.9 0 0]"
  "pass2 cctvFrame rescueConfig (failuresAsEmpty flakyTinyGateway) [candidateAt 0.9 0 0]
     = [candidateAt 0.9 0 0]"
proof -
  have canvas: "createProcessedCanvas flakyGateway 0 p s r = Some (Suc 0)"
    "createProcessedCanvas (failuresAsEmpty flakyGateway) 0 p s r = Some (Suc 0)"
    "createProcessedCanvas (failuresAsEmpty flakyTinyGateway) 0 p s r = Some (Suc 0)" for p s r
    by (simp_all add: failuresAsEmpty_def flakyGateway_def flakyTinyGateway_def)
  show "pass2 cctvFrame rescueConfig flakyGateway [candidateAt 0.9 0 0] = [candidateAt 0.9 0 0]"
    "pass2 cctvFrame rescueConfig (failuresAsEmpty flakyGateway) [candidateAt 0.9 0 0]
       = [candidateAt 0.9 0 0]"
    "pass2 cctvFrame rescueConfig (failuresAsEmpty flakyTinyGateway) [candidateAt 0.9 0 0]
       = [candidateAt 0.9 0 0]"
    by (simp_all add: pass2_def shouldRunPass2_def frame_fields config_fields canvas
        pass2Detections_examples merge_same Let_def)
qed

lemma pass3_examples:
  "pass3 cctvFrame rescueConfig flakyGateway [candidateAt 0.9 0 0] = [candidateAt 0.9 0 0]"
  "pass3 cctvFrame rescueConfig (failuresAsEmpty flakyGateway) [candidateAt 0.9 0 0]
     = [candidateAt 0.9 0 0, candidateAt 0.9 300 0]"
  "pass3 cctvFrame rescueConfig (failuresAsEmpty flakyTinyGateway) [candidateAt 0.9 0 0]
     = [candidateAt 0.9 0 0, candidateAt 0.9 300 0]"
  by (simp_all add: pass3_def shouldRunPass3_def frame_fields config_fields orDefault_def
      failuresAsEmpty_def flakyGateway_def flakyTinyGateway_def lowThresholdTiny_def
      runTinyDetection_def runSsdDetection_def strong_example merge_same Let_def)

lemma candidate_gender: "c_gender (candidateAt s x y) = Male"
  by (simp add: candidateAt_def)

subsection \<open>Isolation of a failing call\<close>

text \<open>
  C9, as stated, fails.  In Pass 3 the SSD call throws and the tiny call at 608 finds a
  face: the cycle's candidate set lacks that face, which it has when the SSD call returns
  nothing instead, so the candidates of another call are affected.  And in Pass 1 the
  tiny call at 416 throws, yet the pass contributes the candidates of its other
  resolutions, not zero candidates.
\<close>

theorem pass3_failure_discards_counterexample:
  "tinyFaceDetector flakyGateway (Suc 0) 608 0.08 = Inr [candidateAt 0.9 300 0] \<and>
   ssdMobilenet flakyGateway (Suc 0) 0.08 = Inl DetectorError \<and>
   collectDetections cctvFrame rescueConfig flakyGateway = [candidateAt 0.9 0 0] \<and>
   collectDetections cctvFrame rescueConfig (failuresAsEmpty flakyGateway)
     = [candidateAt 0.9 0 0, candidateAt 0.9 300 0] \<and>
   tinyFaceDetector flakyGateway 0 416 (pass1Threshold rescueConfig) = Inl DetectorError \<and>
   concat (allPass1Detections cctvFrame rescueConfig flakyGateway)
     = [candidateAt 0.9 0 0, candidateAt 0.9 0 0, candidateAt 0.9 0 0]"
proof -
  have calls: "tinyFaceDetector flakyGateway (Suc 0) 608 0.08 = Inr [candidateAt 0.9 300 0]"
    "ssdMobilenet flakyGateway (Suc 0) 0.08 = Inl DetectorError"
    "tinyFaceDetector flakyGateway 0 416 (pass1Threshold rescueConfig) = Inl DetectorError"
    by (simp_all add: flakyGateway_def lowThresholdTiny_def)
  have cycle: "collectDetections cctvFrame rescueConfig flakyGateway = [candidateAt 0.9 0 0]"
    "collectDetections cctvFrame rescueConfig (failuresAsEmpty flakyGateway)
       = [candidateAt 0.9 0 0, candidateAt 0.9 300 0]"
    by (simp_all add: collectDetections_def mergedPass1_examples pass2_examples pass3_examples)
  have "concat (allPass1Detections cctvFrame rescueConfig flakyGateway)
     = [candidateAt 0.9 0 0, candidateAt 0.9 0 0, candidateAt 0.9 0 0]"
    by (simp add: pass1_examples)
  then show ?thesis
    using calls cycle by simp
qed

text \<open>
  C9, amended.  In Pass 1 and Pass 2 each detector call has its own \<open>try\<close>: a call that
  throws contributes no candidate, and the per-scale lists, the merged Pass 1 and the
  detections after Pass 2 are those of the gateway in which every throwing call returns
  the empty list and every other call returns what it returned.  Pass 3 has one \<open>try\<close>
  around both of its calls: when either throws, the whole pass contributes nothing, the
  detections of Passes 1 and 2 stay as they were, and the cycle returns the results made
  from them.  When no call of Pass 3 throws, the candidate set and the results of the
  cycle are those of the gateway with the failures replaced by empty results.
\<close>

theorem detector_failure_isolation:
  "(tinyFaceDetector gw input inputSize threshold = Inl e \<longrightarrow>
      orEmpty (runTinyDetection gw input inputSize threshold) = []) \<and>
   (ssdMobilenet gw input threshold = Inl e \<longrightarrow>
      orEmpty (runSsdDetection loaded gw input threshold) = [] \<and>
      pushIfAny perScale (runSsdDetection loaded gw input threshold) = perScale) \<and>
   allPass1Detections ctx config (failuresAsEmpty gw) = allPass1Detections ctx config gw \<and>
   mergedPass1 ctx config (failuresAsEmpty gw) = mergedPass1 ctx config gw \<and>
   pass2Detections ctx config (failuresAsEmpty gw) canvas = pass2Detections ctx config gw canvas \<and>
   pass2 ctx config (failuresAsEmpty gw) detections = pass2 ctx config gw detections \<and>
   (createProcessedCanvas gw (videoElement ctx)
      \<lparr>pp_gamma = 1.8, pp_contrast = 2.0, pp_sharpen = 0.6, pp_denoise = True\<rparr> 2.5 None
      = Some canvas \<and>
    (tinyFaceDetector gw canvas 608 0.08 = Inl e \<or>
     (ssdLoaded ctx \<and> ssdMobilenet gw canvas 0.08 = Inl e)) \<longrightarrow>
      pass3 ctx config gw detections = detections \<and>
      collectDetections ctx config gw
        = pass2 ctx config (failuresAsEmpty gw) (mergedPass1 ctx config (failuresAsEmpty gw)) \<and>
      detectFaces ctx config gw processDetections
        = (case processDetections
                  (pass2 ctx config (failuresAsEmpty gw)
                     (mergedPass1 ctx config (failuresAsEmpty gw))) of
             Inl err \<Rightarrow> []
           | Inr results \<Rightarrow> dedupeResultsByIoU results)) \<and>
   ((\<forall>canvas. createProcessedCanvas gw (videoElement ctx)
        \<lparr>pp_gamma = 1.8, pp_contrast = 2.0, pp_sharpen = 0.6, pp_denoise = True\<rparr> 2.5 None
        = Some canvas \<longrightarrow>
        (\<exists>r. tinyFaceDetector gw canvas 608 0.08 = Inr r) \<and>
        (\<exists>r. ssdMobilenet gw canvas 0.08 = Inr r)) \<longrightarrow>
      collectDetections ctx config (failuresAsEmpty gw) = collectDetections ctx config gw \<and>
      detectFaces ctx config (failuresAsEmpty gw) processDetections
        = detectFaces ctx config gw processDetections)"
proof (intro conjI impI)
  assume "tinyFaceDetector gw input inputSize threshold = Inl e"
  then show "orEmpty (runTinyDetection gw input inputSize threshold) = []"
    by (simp add: orEmpty_def runTinyDetection_def)
next
  assume f: "ssdMobilenet gw input threshold = Inl e"
  then show "orEmpty (runSsdDetection loaded gw input threshold) = []"
    by (simp add: orEmpty_def runSsdDetection_def)
  from f show "pushIfAny perScale (runSsdDetection loaded gw input threshold) = perScale"
    by (simp add: pushIfAny_def runSsdDetection_def)
next
  show "allPass1Detections ctx config (failuresAsEmpty gw) = allPass1Detections ctx config gw"
    by (rule allPass1Detections_failuresAsEmpty)
next
  show "mergedPass1 ctx config (failuresAsEmpty gw) = mergedPass1 ctx config gw"
    by (rule mergedPass1_failuresAsEmpty)
next
  show "pass2Detections ctx config (failuresAsEmpty gw) canvas = pass2Detections ctx config gw canvas"
    by (rule pass2Detections_failuresAsEmpty)
next
  show "pass2 ctx config (failuresAsEmpty gw) detections = pass2 ctx config gw detections"
    by (rule pass2_failuresAsEmpty)
next
  assume a: "createProcessedCanvas gw (videoElement ctx)
      \<lparr>pp_gamma = 1.8, pp_contrast = 2.0, pp_sharpen = 0.6, pp_denoise = True\<rparr> 2.5 None
      = Some canvas \<and>
    (tinyFaceDetector gw canvas 608 0.08 = Inl e \<or>
     (ssdLoaded ctx \<and> ssdMobilenet gw canvas 0.08 = Inl e))"
  then have abandoned: "pass3 ctx config gw ds = ds" for ds
    using pass3_abandoned [of gw ctx canvas e config ds] by blast
  show "pass3 ctx config gw detections = detections"
    by (rule abandoned)
  show same: "collectDetections ctx config gw
        = pass2 ctx config (failuresAsEmpty gw) (mergedPass1 ctx config (failuresAsEmpty gw))"
    by (simp add: collectDetections_def abandoned mergedPass1_failuresAsEmpty
        pass2_failuresAsEmpty)
  show "detectFaces ctx config gw processDetections
        = (case processDetections
                  (pass2 ctx config (failuresAsEmpty gw)
                     (mergedPass1 ctx config (failuresAsEmpty gw))) of
             Inl err \<Rightarrow> []
           | Inr results \<Rightarrow> dedupeResultsByIoU results)"
    unfolding detectFaces_def same by (rule refl)
next
  assume "\<forall>canvas. createProcessedCanvas gw (videoElement ctx)
        \<lparr>pp_gamma = 1.8, pp_contrast = 2.0, pp_sharpen = 0.6, pp_denoise = True\<rparr> 2.5 None
        = Some canvas \<longrightarrow>
        (\<exists>r. tinyFaceDetector gw canvas 608 0.08 = Inr r) \<and>
        (\<exists>r. ssdMobilenet gw canvas 0.08 = Inr r)"
  then have "pass3 ctx config (failuresAsEmpty gw) ds = pass3 ctx config gw ds" for ds
    by (rule pass3_failuresAsEmpty)
  then show same: "collectDetections ctx config (failuresAsEmpty gw) = collectDetections ctx config gw"
    by (simp add: collectDetections_def mergedPass1_failuresAsEmpty pass2_failuresAsEmpty)
  show "detectFaces ctx config (failuresAsEmpty gw) processDetections
        = detectFaces ctx config gw processDetections"
    by (simp add: detectFaces_def same)
qed

theorem detector_failure_isolation_witness:
  "orEmpty (runTinyDetection flakyGateway 0 416 0.1) = [] \<and>
   collectDetections cctvFrame rescueConfig flakyGateway = [candidateAt 0.9 0 0] \<and>
   detectFaces cctvFrame rescueConfig flakyGateway
     (\<lambda>detections. Inr (map (\<lambda>d. detectionAt (c_gender d) 0.9 0 0) detections)
        :: detectorError + detectionResult list)
     = [detectionAt Male 0.9 0 0] \<and>
   collectDetections cctvFrame rescueConfig flakyTinyGateway
     = [candidateAt 0.9 0 0, candidateAt 0.9 300 0]"
proof -
  note flaky = detector_failure_isolation
    [where gw = flakyGateway and ctx = cctvFrame and e = DetectorError and config = rescueConfig]
  have one: "orEmpty (runTinyDetection flakyGateway 0 416 0.1) = []"
    using flaky [where input = 0 and inputSize = 416 and threshold = "0.1", THEN conjunct1]
    by (simp add: flakyGateway_def lowThresholdTiny_def)
  have thrown: "createProcessedCanvas flakyGateway (videoElement cctvFrame)
      \<lparr>pp_gamma = 1.8, pp_contrast = 2.0, pp_sharpen = 0.6, pp_denoise = True\<rparr> 2.5 None
      = Some (Suc 0) \<and>
    (tinyFaceDetector flakyGateway (Suc 0) 608 0.08 = Inl DetectorError \<or>
     (ssdLoaded cctvFrame \<and> ssdMobilenet flakyGateway (Suc 0) 0.08 = Inl DetectorError))"
    by (simp add: flakyGateway_def cctvFrame_def)
  note abandoned = flaky [where canvas = "Suc 0", THEN conjunct2, THEN conjunct2, THEN conjunct2,
      THEN conjunct2, THEN conjunct2, THEN conjunct2, THEN conjunct1, rule_format, OF thrown]
  have two: "collectDetections cctvFrame rescueConfig flakyGateway = [candidateAt 0.9 0 0]"
    using abandoned [THEN conjunct2, THEN conjunct1]
    by (simp add: mergedPass1_examples pass2_examples)
  have three: "detectFaces cctvFrame rescueConfig flakyGateway
     (\<lambda>detections. Inr (map (\<lambda>d. detectionAt (c_gender d) 0.9 0 0) detections)
        :: detectorError + detectionResult list)
     = [detectionAt Male 0.9 0 0]"
    using detector_failure_isolation
      [where gw = flakyGateway and ctx = cctvFrame and e = DetectorError
         and config = rescueConfig and canvas = "Suc 0"
         and processDetections = "\<lambda>detections.
           Inr (map (\<lambda>d. detectionAt (c_gender d) 0.9 0 0) detections)
             :: detectorError + detectionResult list",
       THEN conjunct2, THEN conjunct2, THEN conjunct2, THEN conjunct2, THEN conjunct2,
       THEN conjunct2, THEN conjunct1, rule_format, OF thrown, THEN conjunct2, THEN conjunct2]
    by (simp add: mergedPass1_examples pass2_examples dedupeResultsByIoU_def candidate_gender)
  have quiet: "\<forall>canvas. createProcessedCanvas flakyTinyGateway (videoElement cctvFrame)
        \<lparr>pp_gamma = 1.8, pp_contrast = 2.0, pp_sharpen = 0.6, pp_denoise = True\<rparr> 2.5 None
        = Some canvas \<longrightarrow>
        (\<exists>r. tinyFaceDetector flakyTinyGateway canvas 608 0.08 = Inr r) \<and>
        (\<exists>r. ssdMobilenet flakyTinyGateway canvas 0.08 = Inr r)"
    by (simp add: flakyTinyGateway_def lowThresholdTiny_def)
  have four: "collectDetections cctvFrame rescueConfig flakyTinyGateway
     = [candidateAt 0.9 0 0, candidateAt 0.9 300 0]"
    using detector_failure_isolation
      [where gw = flakyTinyGateway and ctx = cctvFrame and config = rescueConfig,
       THEN conjunct2, THEN conjunct2, THEN conjunct2, THEN conjunct2, THEN conjunct2,
       THEN conjunct2, THEN conjunct2, THEN mp, OF quiet, THEN conjunct1]
    by (simp add: collectDetections_def mergedPass1_examples pass2_examples pass3_examples)
  show ?thesis
    using one two three four by simp
qed

end
